theory Spec2Isabelle
  imports Main "HOL-Library.Word"
begin

section \<open>Errors and the Go library functions the command uses\<close>

text \<open>
  Go's \<open>error\<close> values. \<open>NumError\<close> is \<open>strconv.NumError\<close> (function, input, cause);
  \<open>ErrorString\<close> is the value built by \<open>errors.New\<close>, and stands for every error a
  collaborator outside this file hands back. A \<open>nil\<close> error is \<open>None\<close>.
\<close>

datatype num_err = ErrSyntax | ErrRange

datatype error = NumError string string num_err | ErrorString string

type_synonym int64 = "64 word"
type_synonym uint64 = "64 word"

text \<open>
  Go's \<open>int\<close>, 64 bits wide on the platforms the command is built for: addition wraps
  around, and \<open>sint\<close> reads the value.
\<close>

type_synonym go_int = "64 word"

text \<open>
  \<open>strconv.ParseUint(s, 10, 64)\<close>: the digit loop with its two overflow tests. The
  function hands back a value together with the error, as the Go function does; on a
  range error the value is the largest \<open>uint64\<close>.
\<close>

definition isDigit :: "char \<Rightarrow> bool" where
  "isDigit c = (48 \<le> (of_char c :: nat) \<and> (of_char c :: nat) \<le> 57)"

definition digitVal :: "char \<Rightarrow> uint64" where
  "digitVal c = of_nat (of_char c - 48)"

definition maxUint64 :: uint64 where
  "maxUint64 = - 1"

definition uintCutoff :: uint64 where
  "uintCutoff = maxUint64 div 10 + 1"

fun ParseUint_loop :: "string \<Rightarrow> uint64 \<Rightarrow> uint64 \<times> num_err option" where
  "ParseUint_loop [] n = (n, None)"
| "ParseUint_loop (c # cs) n =
     (if \<not> isDigit c then (0, Some ErrSyntax)
      else if uintCutoff \<le> n then (maxUint64, Some ErrRange)
      else let n10 = n * 10; n1 = n10 + digitVal c
           in if n1 < n10 \<or> maxUint64 < n1 then (maxUint64, Some ErrRange)
              else ParseUint_loop cs n1)"

definition ParseUint :: "string \<Rightarrow> uint64 \<times> num_err option" where
  "ParseUint s = (if s = [] then (0, Some ErrSyntax) else ParseUint_loop s 0)"

text \<open>
  \<open>strconv.ParseInt(s, 10, 64)\<close>: an optional sign, then \<open>ParseUint\<close>, then the test
  against \<open>1 << 63\<close>. The result is an \<open>int64\<close>, read with \<open>sint\<close>.
\<close>

definition intCutoff :: uint64 where
  "intCutoff = push_bit 63 1"

definition ParseInt :: "string \<Rightarrow> error + int64" where
  "ParseInt s0 =
     (if s0 = [] then Inl (NumError ''ParseInt'' s0 ErrSyntax)
      else
        let neg = (hd s0 = CHR ''-'');
            s = (if hd s0 = CHR ''+'' \<or> hd s0 = CHR ''-'' then tl s0 else s0);
            (un, err) = ParseUint s
        in if err = Some ErrSyntax then Inl (NumError ''ParseInt'' s0 ErrSyntax)
           else if \<not> neg \<and> intCutoff \<le> un then Inl (NumError ''ParseInt'' s0 ErrRange)
           else if neg \<and> intCutoff < un then Inl (NumError ''ParseInt'' s0 ErrRange)
           else Inr (if neg then - un else un))"

text \<open>
  \<open>errorutils.CheckError\<close> hands its argument back (it only reports the error on the
  way); \<open>os.Getenv\<close> reads the process environment, a map from names to values, and
  gives the empty string for a name that is not set.
\<close>

definition CheckError :: "error option \<Rightarrow> error option" where
  "CheckError err = err"

type_synonym environ = "string \<rightharpoonup> string"

definition Getenv :: "environ \<Rightarrow> string \<Rightarrow> string" where
  "Getenv env key = (case env key of None \<Rightarrow> [] | Some v \<Rightarrow> v)"

section \<open>The minimum checksum-deploy size\<close>

text \<open>\<open>getMinChecksumDeploySize\<close> (upload.go, lines 119 to 130).\<close>

definition getMinChecksumDeploySize :: "environ \<Rightarrow> error + int64" where
  "getMinChecksumDeploySize env =
     (let minChecksumDeploySize = Getenv env ''JFROG_CLI_MIN_CHECKSUM_DEPLOY_SIZE_KB''
      in if minChecksumDeploySize = [] then Inr 10240
         else case ParseInt minChecksumDeploySize of
                Inl e \<Rightarrow> (case CheckError (Some e) of
                            Some e' \<Rightarrow> Inl e'
                          | None \<Rightarrow> Inr 0)
              | Inr minSize \<Rightarrow> (case CheckError None of
                                  Some e' \<Rightarrow> Inl e'
                                | None \<Rightarrow> Inr (minSize * 1000)))"

section \<open>Data model\<close>

text \<open>
  Modelled from the spec: the types \<open>File\<close> and \<open>SpecFiles\<close> of the repository's
  \<open>spec\<close> package, which is not among the sources at hand. A specification is an
  ordered sequence of entries; an entry has a source pattern, a target, a property
  string (pairs \<open>key=value\<close> separated by \<open>;\<close>) and five optional overrides, each
  kept as the raw text the entry was written with, the empty string when the override
  is absent.
\<close>

record File =
  Pattern :: string
  Target :: string
  Props :: string
  Recursive :: string
  Regexp :: string
  IncludeDirs :: string
  Flat :: string
  Explode :: string

record SpecFiles =
  Files :: "File list"

text \<open>
  Modelled from the spec: the type \<open>ArtifactoryDetails\<close> of the repository's \<open>config\<close>
  package, the stored connection details, and what its \<open>CreateArtAuthConfig\<close> makes of
  them. Both are opaque to the command.
\<close>

datatype ArtifactoryDetails = ArtifactoryDetails string

datatype ArtAuth = ArtAuth string

text \<open>\<open>UploadConfiguration\<close> (upload.go, lines 148 to 159).\<close>

record UploadConfiguration =
  Deb :: string
  Threads :: go_int
  MinChecksumDeploySize :: int64
  BuildName :: string
  BuildNumber :: string
  DryRun :: bool
  Symlink :: bool
  ExplodeArchive :: bool
  ArtDetails :: ArtifactoryDetails
  Retries :: go_int

text \<open>
  The client library's types: the common parameters and the upload parameters of one
  entry, the configuration the service manager is built from, the descriptor of a
  transferred file, the build artifact it is projected to, and the partial build-info
  record. Field names carry a prefix where two Go structs share a name.
\<close>

record ArtifactoryCommonParams =
  cp_Pattern :: string
  cp_Target :: string
  cp_Props :: string

record UploadParams =
  up_Common :: ArtifactoryCommonParams
  up_Recursive :: bool
  up_Regexp :: bool
  up_IncludeDirs :: bool
  up_Flat :: bool
  up_ExplodeArchive :: bool
  up_Deb :: string
  up_Symlink :: bool
  up_Retries :: go_int

record Config =
  cfg_ArtDetails :: ArtAuth
  cfg_DryRun :: bool
  cfg_CertificatesPath :: string
  cfg_MinChecksumDeploy :: int64
  cfg_Threads :: go_int

record FileInfo =
  fi_LocalPath :: string
  fi_ArtifactoryPath :: string
  fi_Sha1 :: string
  fi_Md5 :: string

record Artifact =
  art_Name :: string
  art_Sha1 :: string
  art_Md5 :: string

record Partial =
  Artifacts :: "Artifact list"

text \<open>
  What \<open>UploadFiles\<close> hands back: the descriptors, the number of files uploaded, the
  number of files that failed, and the error.
\<close>

type_synonym upload_result = "FileInfo list \<times> go_int \<times> go_int \<times> error option"

section \<open>Collaborators and the trace of a run\<close>

text \<open>
  Every call the command makes on a stateful collaborator, and every \<open>log.Error\<close>, is
  recorded in order. The event of an \<open>UploadFiles\<close> call keeps what the client handed
  back; the event of a \<open>SavePartialBuildInfo\<close> call keeps the record the populate
  function makes of the empty partial record.
\<close>

datatype event =
    E_SaveBuildGeneralDetails string string
  | E_CreateBuildProperties string string
  | E_UploadFiles UploadParams upload_result
  | E_LogError error
  | E_SavePartialBuildInfo string string Partial

text \<open>
  The functions of the repository's \<open>utils\<close> package and of the client library that
  the command calls are parameters of the model. A service manager answers an
  \<open>UploadFiles\<close> call; its answer may depend on everything that happened before, so
  it reads the trace. The same holds for the build-info store and the build-property
  formatter. The collaborators of the initialisation are called once, before anything
  else.
\<close>

type_synonym ServicesManager = "event list \<Rightarrow> UploadParams \<Rightarrow> upload_result"

record collaborators =
  GetJfrogSecurityDir :: "error + string"
  Environ :: environ
  CreateArtAuthConfig :: "ArtifactoryDetails \<Rightarrow> error + ArtAuth"
  Build :: "Config \<Rightarrow> error + Config"
  New :: "Config \<Rightarrow> error + ServicesManager"
  SaveBuildGeneralDetails :: "event list \<Rightarrow> string \<Rightarrow> string \<Rightarrow> error option"
  CreateBuildProperties :: "event list \<Rightarrow> string \<Rightarrow> string \<Rightarrow> string \<times> error option"
  SavePartialBuildInfo ::
    "event list \<Rightarrow> string \<Rightarrow> string \<Rightarrow> (Partial \<Rightarrow> Partial) \<Rightarrow> error option"
  ToBuildArtifacts :: "FileInfo \<Rightarrow> Artifact"

fun isLogError :: "event \<Rightarrow> bool" where
  "isLogError (E_LogError e) = True"
| "isLogError _ = False"

fun isGeneralSave :: "event \<Rightarrow> bool" where
  "isGeneralSave (E_SaveBuildGeneralDetails n b) = True"
| "isGeneralSave _ = False"

fun isPropsCall :: "event \<Rightarrow> bool" where
  "isPropsCall (E_CreateBuildProperties n b) = True"
| "isPropsCall _ = False"

fun isCommit :: "event \<Rightarrow> bool" where
  "isCommit (E_SavePartialBuildInfo n b p) = True"
| "isCommit _ = False"

text \<open>What the client handed back over a trace: descriptors in order, and the counts.\<close>

fun descriptorsOf :: "event \<Rightarrow> FileInfo list" where
  "descriptorsOf (E_UploadFiles p (artifacts, uploaded, failed, err)) = artifacts"
| "descriptorsOf _ = []"

fun uploadedOf :: "event \<Rightarrow> go_int" where
  "uploadedOf (E_UploadFiles p (artifacts, uploaded, failed, err)) = uploaded"
| "uploadedOf _ = 0"

fun failedOf :: "event \<Rightarrow> go_int" where
  "failedOf (E_UploadFiles p (artifacts, uploaded, failed, err)) = failed"
| "failedOf _ = 0"

definition collected :: "event list \<Rightarrow> FileInfo list" where
  "collected tr = concat (map descriptorsOf tr)"

definition uploadedTotal :: "event list \<Rightarrow> go_int" where
  "uploadedTotal tr = sum_list (map uploadedOf tr)"

definition failedTotal :: "event list \<Rightarrow> go_int" where
  "failedTotal tr = sum_list (map failedOf tr)"

section \<open>The build property injector\<close>

text \<open>\<open>strings.HasSuffix\<close>.\<close>

definition HasSuffix :: "string \<Rightarrow> string \<Rightarrow> bool" where
  "HasSuffix s suffix =
     (length suffix \<le> length s \<and> drop (length s - length suffix) s = suffix)"

text \<open>
  \<open>addBuildProps\<close> (upload.go, lines 132 to 146). The Go function writes through a
  pointer and returns the error; here it takes the property string and hands back the
  new property string, the error and the trace.
\<close>

definition addBuildProps ::
  "collaborators \<Rightarrow> event list \<Rightarrow> string \<Rightarrow> string \<Rightarrow> string \<Rightarrow> string \<times> error option \<times> event list"
where
  "addBuildProps c tr props buildName buildNumber =
     (if buildName = [] \<or> buildNumber = [] then (props, None, tr)
      else
        let (buildProps, err) = CreateBuildProperties c tr buildName buildNumber;
            tr1 = tr @ [E_CreateBuildProperties buildName buildNumber]
        in if err \<noteq> None then (props, err, tr1)
           else
             let props1 = (if 0 < length props \<and> \<not> HasSuffix props '';'' \<and> 0 < length buildProps
                           then props @ '';'' else props)
             in (props1 @ buildProps, None, tr1))"

section \<open>The upload parameter builder\<close>

text \<open>\<open>strconv.ParseBool\<close>.\<close>

definition ParseBool :: "string \<Rightarrow> error + bool" where
  "ParseBool str =
     (if str \<in> set [''1'', ''t'', ''T'', ''TRUE'', ''true'', ''True''] then Inr True
      else if str \<in> set [''0'', ''f'', ''F'', ''FALSE'', ''false'', ''False''] then Inr False
      else Inl (NumError ''ParseBool'' str ErrSyntax))"

text \<open>
  Modelled from the spec: the entry's lookups \<open>IsRecursive\<close>, \<open>IsRegexp\<close>,
  \<open>IsIncludeDirs\<close>, \<open>IsFlat\<close>, \<open>IsExplode\<close> and its \<open>ToArtifactoryCommonParams\<close> are
  methods of the \<open>spec\<close> package. Each lookup is a get-or-default: the default when the
  override is absent, the parsed boolean when it is present, an error when it is present
  and does not parse as a boolean. The common parameters copy the entry's pattern,
  target and property string.
\<close>

definition StringToBool :: "string \<Rightarrow> bool \<Rightarrow> error + bool" where
  "StringToBool boolVal defaultValue =
     (if 0 < length boolVal then ParseBool boolVal else Inr defaultValue)"

definition IsRecursive :: "File \<Rightarrow> bool \<Rightarrow> error + bool" where
  "IsRecursive f defaultValue = StringToBool (Recursive f) defaultValue"

definition IsRegexp :: "File \<Rightarrow> bool \<Rightarrow> error + bool" where
  "IsRegexp f defaultValue = StringToBool (Regexp f) defaultValue"

definition IsIncludeDirs :: "File \<Rightarrow> bool \<Rightarrow> error + bool" where
  "IsIncludeDirs f defaultValue = StringToBool (IncludeDirs f) defaultValue"

definition IsFlat :: "File \<Rightarrow> bool \<Rightarrow> error + bool" where
  "IsFlat f defaultValue = StringToBool (Flat f) defaultValue"

definition IsExplode :: "File \<Rightarrow> bool \<Rightarrow> error + bool" where
  "IsExplode f defaultValue = StringToBool (Explode f) defaultValue"

definition ToArtifactoryCommonParams :: "File \<Rightarrow> ArtifactoryCommonParams" where
  "ToArtifactoryCommonParams f =
     \<lparr>cp_Pattern = Pattern f, cp_Target = Target f, cp_Props = Props f\<rparr>"

text \<open>
  \<open>getUploadParams\<close> (upload.go, lines 161 to 193). The caller reads the parameters
  only when the error is \<open>nil\<close>, so an error is the whole result.
\<close>

definition getUploadParams :: "File \<Rightarrow> UploadConfiguration \<Rightarrow> error + UploadParams" where
  "getUploadParams f configuration =
     (case IsRecursive f True of Inl err \<Rightarrow> Inl err | Inr recursive \<Rightarrow>
     (case IsRegexp f False of Inl err \<Rightarrow> Inl err | Inr regexp \<Rightarrow>
     (case IsIncludeDirs f False of Inl err \<Rightarrow> Inl err | Inr includeDirs \<Rightarrow>
     (case IsFlat f True of Inl err \<Rightarrow> Inl err | Inr flat \<Rightarrow>
     (case IsExplode f False of Inl err \<Rightarrow> Inl err | Inr explodeArchive \<Rightarrow>
        Inr \<lparr>up_Common = ToArtifactoryCommonParams f,
             up_Recursive = recursive,
             up_Regexp = regexp,
             up_IncludeDirs = includeDirs,
             up_Flat = flat,
             up_ExplodeArchive = explodeArchive,
             up_Deb = Deb configuration,
             up_Symlink = Symlink configuration,
             up_Retries = Retries configuration\<rparr>)))))"

section \<open>The service configuration factory\<close>

text \<open>\<open>createUploadServiceConfig\<close> (upload.go, lines 103 to 117).\<close>

definition createUploadServiceConfig ::
  "collaborators \<Rightarrow> ArtifactoryDetails \<Rightarrow> UploadConfiguration \<Rightarrow> string \<Rightarrow> int64 \<Rightarrow> error + Config"
where
  "createUploadServiceConfig c artDetails flags certPath minChecksumDeploySize =
     (case CreateArtAuthConfig c artDetails of
        Inl err \<Rightarrow> Inl err
      | Inr artAuth \<Rightarrow>
          Build c \<lparr>cfg_ArtDetails = artAuth,
                   cfg_DryRun = DryRun flags,
                   cfg_CertificatesPath = certPath,
                   cfg_MinChecksumDeploy = minChecksumDeploySize,
                   cfg_Threads = Threads flags\<rparr>)"

section \<open>Build artifacts\<close>

text \<open>
  \<open>convertFileInfoToBuildArtifacts\<close> (upload.go, lines 95 to 101): a slice of zero
  values as long as the input, then one indexed store per descriptor. An index outside
  the slice is a run-time panic in Go: \<open>None\<close>.
\<close>

definition zeroArtifact :: Artifact where
  "zeroArtifact = \<lparr>art_Name = [], art_Sha1 = [], art_Md5 = []\<rparr>"

fun convertLoop ::
  "(FileInfo \<Rightarrow> Artifact) \<Rightarrow> FileInfo list \<Rightarrow> nat \<Rightarrow> Artifact list \<Rightarrow> Artifact list option"
where
  "convertLoop toBuildArtifacts [] i buildArtifacts = Some buildArtifacts"
| "convertLoop toBuildArtifacts (fileInfo # rest) i buildArtifacts =
     (if i < length buildArtifacts
      then convertLoop toBuildArtifacts rest (Suc i)
             (buildArtifacts[i := toBuildArtifacts fileInfo])
      else None)"

definition convertFileInfoToBuildArtifacts ::
  "(FileInfo \<Rightarrow> Artifact) \<Rightarrow> FileInfo list \<Rightarrow> Artifact list option"
where
  "convertFileInfoToBuildArtifacts toBuildArtifacts filesInfo =
     convertLoop toBuildArtifacts filesInfo 0 (replicate (length filesInfo) zeroArtifact)"

section \<open>The upload orchestrator\<close>

text \<open>
  What a run of \<open>Upload\<close> leaves behind: the three results of the Go function, the
  trace of the calls it made, and the specification, whose property strings the
  build-info preflight rewrites in place.
\<close>

record outcome =
  res_successCount :: go_int
  res_failCount :: go_int
  res_err :: "error option"
  res_trace :: "event list"
  res_uploadSpec :: SpecFiles

text \<open>
  Creating the service manager (upload.go, lines 24 to 39). Each failure returns at
  once.
\<close>

definition Upload_init :: "collaborators \<Rightarrow> UploadConfiguration \<Rightarrow> error + ServicesManager" where
  "Upload_init c configuration =
     (case GetJfrogSecurityDir c of
        Inl err \<Rightarrow> Inl err
      | Inr certPath \<Rightarrow>
     (case getMinChecksumDeploySize (Environ c) of
        Inl err \<Rightarrow> Inl err
      | Inr minChecksumDeploySize \<Rightarrow>
     (case createUploadServiceConfig c (ArtDetails configuration) configuration certPath
             minChecksumDeploySize of
        Inl err \<Rightarrow> Inl err
      | Inr servicesConfig \<Rightarrow> New c servicesConfig)))"

text \<open>
  The loop over the entries that adds the build properties (upload.go, lines 47 to
  49). \<open>uploadSpec.Get(i)\<close> is the \<open>i\<close>-th entry, by reference, so the new property
  string is stored in the specification. The error \<open>addBuildProps\<close> returns is not
  read.
\<close>

fun addBuildPropsLoop ::
  "collaborators \<Rightarrow> string \<Rightarrow> string \<Rightarrow> File list \<Rightarrow> event list \<Rightarrow> File list \<times> event list"
where
  "addBuildPropsLoop c buildName buildNumber [] tr = ([], tr)"
| "addBuildPropsLoop c buildName buildNumber (f # fs) tr =
     (let (props, err, tr1) = addBuildProps c tr (Props f) buildName buildNumber;
          (fs1, tr2) = addBuildPropsLoop c buildName buildNumber fs tr1
      in (f\<lparr>Props := props\<rparr> # fs1, tr2))"

text \<open>Build-info collection before the transfers (upload.go, lines 42 to 50).\<close>

definition isCollectBuildInfo :: "UploadConfiguration \<Rightarrow> bool" where
  "isCollectBuildInfo configuration =
     (0 < length (BuildName configuration) \<and> 0 < length (BuildNumber configuration))"

definition Upload_preflight ::
  "collaborators \<Rightarrow> SpecFiles \<Rightarrow> UploadConfiguration \<Rightarrow> error \<times> event list + SpecFiles \<times> event list"
where
  "Upload_preflight c uploadSpec configuration =
     (if isCollectBuildInfo configuration \<and> \<not> DryRun configuration then
        (case SaveBuildGeneralDetails c [] (BuildName configuration) (BuildNumber configuration) of
           Some err \<Rightarrow>
             Inl (err, [E_SaveBuildGeneralDetails (BuildName configuration) (BuildNumber configuration)])
         | None \<Rightarrow>
             (let (fs, tr) =
                    addBuildPropsLoop c (BuildName configuration) (BuildNumber configuration)
                      (Files uploadSpec)
                      [E_SaveBuildGeneralDetails (BuildName configuration) (BuildNumber configuration)]
              in Inr (uploadSpec\<lparr>Files := fs\<rparr>, tr)))
      else Inr (uploadSpec, []))"

text \<open>
  The upload loop (upload.go, lines 53 to 74): its variables, one iteration, and the
  loop over the entries in order. The two counters are Go \<open>int\<close>s, so the additions of
  lines 67 and 68 wrap around.
\<close>

record loop_state =
  filesInfo :: "FileInfo list"
  successCount :: go_int
  failCount :: go_int
  errorOccurred :: bool
  trace :: "event list"

definition loopStart :: "event list \<Rightarrow> loop_state" where
  "loopStart tr =
     \<lparr>filesInfo = [], successCount = 0, failCount = 0, errorOccurred = False, trace = tr\<rparr>"

definition uploadEntry ::
  "ServicesManager \<Rightarrow> UploadConfiguration \<Rightarrow> File \<Rightarrow> loop_state \<Rightarrow> loop_state"
where
  "uploadEntry servicesManager configuration f st =
     (case getUploadParams f configuration of
        Inl err \<Rightarrow> st\<lparr>errorOccurred := True, trace := trace st @ [E_LogError err]\<rparr>
      | Inr uploadParams \<Rightarrow>
          (case servicesManager (trace st) uploadParams of
             (artifacts, uploaded, failed, err) \<Rightarrow>
               (let st1 = st\<lparr>filesInfo := filesInfo st @ artifacts,
                              failCount := failCount st + failed,
                              successCount := successCount st + uploaded,
                              trace := trace st @
                                [E_UploadFiles uploadParams (artifacts, uploaded, failed, err)]\<rparr>
                in case err of
                     Some e \<Rightarrow> st1\<lparr>errorOccurred := True, trace := trace st1 @ [E_LogError e]\<rparr>
                   | None \<Rightarrow> st1)))"

fun uploadLoop ::
  "ServicesManager \<Rightarrow> UploadConfiguration \<Rightarrow> File list \<Rightarrow> loop_state \<Rightarrow> loop_state"
where
  "uploadLoop servicesManager configuration [] st = st"
| "uploadLoop servicesManager configuration (f # fs) st =
     uploadLoop servicesManager configuration fs (uploadEntry servicesManager configuration f st)"

text \<open>
  The decision after the loop and the build-info commit (upload.go, lines 76 to 92).
  The named result \<open>err\<close> is \<open>nil\<close> when the loop is left: the loop's own \<open>err\<close> is a
  variable of the loop body. A panic of the conversion would end the run; it is kept
  as a branch of its own, which lemma \<open>convert_eq\<close> below shows is never taken.
\<close>

definition Upload_finish ::
  "collaborators \<Rightarrow> SpecFiles \<Rightarrow> UploadConfiguration \<Rightarrow> loop_state \<Rightarrow> outcome"
where
  "Upload_finish c uploadSpec configuration st =
     (if errorOccurred st then
        \<lparr>res_successCount = successCount st, res_failCount = failCount st,
         res_err = Some (ErrorString ''Upload finished with errors. Please review the logs''),
         res_trace = trace st, res_uploadSpec = uploadSpec\<rparr>
      else if 0 < sint (failCount st) then
        \<lparr>res_successCount = successCount st, res_failCount = failCount st,
         res_err = None, res_trace = trace st, res_uploadSpec = uploadSpec\<rparr>
      else if isCollectBuildInfo configuration \<and> \<not> DryRun configuration then
        (case convertFileInfoToBuildArtifacts (ToBuildArtifacts c) (filesInfo st) of
           None \<Rightarrow>
             \<lparr>res_successCount = successCount st, res_failCount = failCount st,
              res_err = Some (ErrorString ''panic: index out of range''),
              res_trace = trace st, res_uploadSpec = uploadSpec\<rparr>
         | Some buildArtifacts \<Rightarrow>
             (let populateFunc = (\<lambda>partial. partial\<lparr>Artifacts := buildArtifacts\<rparr>)
              in \<lparr>res_successCount = successCount st, res_failCount = failCount st,
                  res_err = SavePartialBuildInfo c (trace st) (BuildName configuration)
                              (BuildNumber configuration) populateFunc,
                  res_trace = trace st @
                    [E_SavePartialBuildInfo (BuildName configuration) (BuildNumber configuration)
                       (populateFunc \<lparr>Artifacts = []\<rparr>)],
                  res_uploadSpec = uploadSpec\<rparr>))
      else
        \<lparr>res_successCount = successCount st, res_failCount = failCount st,
         res_err = None, res_trace = trace st, res_uploadSpec = uploadSpec\<rparr>)"

text \<open>\<open>Upload\<close> (upload.go, lines 21 to 93).\<close>

definition Upload :: "collaborators \<Rightarrow> SpecFiles \<Rightarrow> UploadConfiguration \<Rightarrow> outcome" where
  "Upload c uploadSpec configuration =
     (case Upload_init c configuration of
        Inl err \<Rightarrow>
          \<lparr>res_successCount = 0, res_failCount = 0, res_err = Some err,
           res_trace = [], res_uploadSpec = uploadSpec\<rparr>
      | Inr servicesManager \<Rightarrow>
          (case Upload_preflight c uploadSpec configuration of
             Inl (err, tr) \<Rightarrow>
               \<lparr>res_successCount = 0, res_failCount = 0, res_err = Some err,
                res_trace = tr, res_uploadSpec = uploadSpec\<rparr>
           | Inr (uploadSpec1, tr) \<Rightarrow>
               Upload_finish c uploadSpec1 configuration
                 (uploadLoop servicesManager configuration (Files uploadSpec1)
                    (loopStart tr))))"

section \<open>Notions the properties are stated with\<close>



text \<open>The variables of the upload loop when the loop is left.\<close>

definition loopEnd ::
  "ServicesManager \<Rightarrow> UploadConfiguration \<Rightarrow> SpecFiles \<Rightarrow> event list \<Rightarrow> loop_state"
where
  "loopEnd servicesManager configuration uploadSpec tr =
     uploadLoop servicesManager configuration (Files uploadSpec) (loopStart tr)"

text \<open>
  The errors the entries produce during the loop, in order: for each entry, the error of
  its parameter build, or else the error of its client call, if there is one.
\<close>

definition entryError ::
  "ServicesManager \<Rightarrow> UploadConfiguration \<Rightarrow> File \<Rightarrow> loop_state \<Rightarrow> error option"
where
  "entryError servicesManager configuration f st =
     (case getUploadParams f configuration of
        Inl err \<Rightarrow> Some err
      | Inr uploadParams \<Rightarrow> snd (snd (snd (servicesManager (trace st) uploadParams))))"

fun entryErrors ::
  "ServicesManager \<Rightarrow> UploadConfiguration \<Rightarrow> File list \<Rightarrow> loop_state \<Rightarrow> error list"
where
  "entryErrors servicesManager configuration [] st = []"
| "entryErrors servicesManager configuration (f # fs) st =
     (case entryError servicesManager configuration f st of
        Some err \<Rightarrow> [err]
      | None \<Rightarrow> []) @
     entryErrors servicesManager configuration fs
       (uploadEntry servicesManager configuration f st)"


text \<open>
  The loop's variables agree with its trace: the descriptors and the counts are what the
  client handed back, the flag is set when an error was logged, and nothing was
  committed.
\<close>

definition accounted :: "loop_state \<Rightarrow> bool" where
  "accounted st =
     (filesInfo st = collected (trace st) \<and>
      successCount st = uploadedTotal (trace st) \<and>
      failCount st = failedTotal (trace st) \<and>
      errorOccurred st = list_ex isLogError (trace st) \<and>
      \<not> list_ex isCommit (trace st))"

definition preflightEvent :: "event \<Rightarrow> bool" where
  "preflightEvent ev = (isGeneralSave ev \<or> isPropsCall ev)"

text \<open>Two entries that differ in their property strings at most.\<close>

definition sameButProps :: "File \<Rightarrow> File \<Rightarrow> bool" where
  "sameButProps f g = (g = f\<lparr>Props := Props g\<rparr>)"

text \<open>A string ends with the separator.\<close>

definition endsWithSeparator :: "string \<Rightarrow> bool" where
  "endsWithSeparator p = (p \<noteq> [] \<and> last p = CHR '';'')"

section \<open>Concrete collaborators, entries and configurations\<close>

text \<open>
  A client that answers by the entry's pattern: \<open>broken\<close> is a transfer error with
  nothing transferred, \<open>partial\<close> transfers two files of three, \<open>huge\<close> reports
  the largest \<open>int\<close> as its number of failed files, every other pattern transfers three
  files of three.
\<close>

definition sampleInfo :: "string \<Rightarrow> FileInfo" where
  "sampleInfo path =
     \<lparr>fi_LocalPath = path, fi_ArtifactoryPath = ''repo/'' @ path,
      fi_Sha1 = ''sha1'', fi_Md5 = ''md5''\<rparr>"

definition sampleManager :: ServicesManager where
  "sampleManager tr uploadParams =
     (if cp_Pattern (up_Common uploadParams) = ''broken''
        then ([], 0, 0, Some (ErrorString ''transfer failed''))
      else if cp_Pattern (up_Common uploadParams) = ''partial''
        then ([sampleInfo ''d'', sampleInfo ''e''], 2, 1, None)
      else if cp_Pattern (up_Common uploadParams) = ''huge''
        then ([], 0, 9223372036854775807, None)
      else ([sampleInfo ''a'', sampleInfo ''b'', sampleInfo ''c''], 3, 0, None))"

definition sampleProjection :: "FileInfo \<Rightarrow> Artifact" where
  "sampleProjection fileInfo =
     \<lparr>art_Name = fi_ArtifactoryPath fileInfo, art_Sha1 = fi_Sha1 fileInfo,
      art_Md5 = fi_Md5 fileInfo\<rparr>"

definition sampleCollaborators :: collaborators where
  "sampleCollaborators =
     \<lparr>GetJfrogSecurityDir = Inr ''security'',
      Environ = Map.empty,
      CreateArtAuthConfig = (\<lambda>details. Inr (ArtAuth ''auth'')),
      Build = (\<lambda>config. Inr config),
      New = (\<lambda>config. Inr sampleManager),
      SaveBuildGeneralDetails = (\<lambda>tr name number. None),
      CreateBuildProperties =
        (\<lambda>tr name number. (''build.name='' @ name @ '';build.number='' @ number, None)),
      SavePartialBuildInfo = (\<lambda>tr name number populate. None),
      ToBuildArtifacts = sampleProjection\<rparr>"

text \<open>
  The same collaborators with a build-info store that cannot save the general details,
  and with a formatter that fails.
\<close>

definition failingGeneralSave :: collaborators where
  "failingGeneralSave =
     sampleCollaborators\<lparr>SaveBuildGeneralDetails :=
       (\<lambda>tr name number. Some (ErrorString ''cannot write build details''))\<rparr>"

definition failingFormatter :: collaborators where
  "failingFormatter =
     sampleCollaborators\<lparr>CreateBuildProperties :=
       (\<lambda>tr name number. (''build.name=b'', Some (ErrorString ''cannot read build details'')))\<rparr>"

definition sampleFile :: "string \<Rightarrow> File" where
  "sampleFile pattern =
     \<lparr>Pattern = pattern, Target = ''repo/'', Props = ''a=1'', Recursive = [], Regexp = [],
      IncludeDirs = [], Flat = [], Explode = []\<rparr>"

definition sampleConfiguration :: "string \<Rightarrow> string \<Rightarrow> bool \<Rightarrow> UploadConfiguration" where
  "sampleConfiguration name number dry =
     \<lparr>Deb = [], Threads = 3, MinChecksumDeploySize = 10240, BuildName = name,
      BuildNumber = number, DryRun = dry, Symlink = False, ExplodeArchive = False,
      ArtDetails = ArtifactoryDetails ''server'', Retries = 3\<rparr>"

section \<open>Properties of the minimum checksum-deploy size\<close>

lemmas ParseInt_eval =
  ParseInt_def ParseUint_def isDigit_def digitVal_def maxUint64_def uintCutoff_def
  intCutoff_def Let_def

lemmas getMinChecksumDeploySize_eval =
  getMinChecksumDeploySize_def Getenv_def CheckError_def ParseInt_eval

lemma ParseInt_nonempty: "ParseInt s = Inr v \<Longrightarrow> s \<noteq> []"
  by (auto simp: ParseInt_def)

lemma getMinChecksumDeploySize_unset:
  "Getenv env ''JFROG_CLI_MIN_CHECKSUM_DEPLOY_SIZE_KB'' = [] \<Longrightarrow>
   getMinChecksumDeploySize env = Inr 10240"
  by (simp add: getMinChecksumDeploySize_def)

lemma getMinChecksumDeploySize_numeric:
  "ParseInt (Getenv env ''JFROG_CLI_MIN_CHECKSUM_DEPLOY_SIZE_KB'') = Inr v \<Longrightarrow>
   getMinChecksumDeploySize env = Inr (v * 1000)"
  using ParseInt_nonempty [of "Getenv env ''JFROG_CLI_MIN_CHECKSUM_DEPLOY_SIZE_KB''" v]
  by (simp add: getMinChecksumDeploySize_def CheckError_def)

lemma sint_times_1000:
  fixes v :: int64
  assumes "- 9223372036854775 \<le> sint v" and "sint v \<le> 9223372036854775"
  shows "sint (v * 1000) = sint v * 1000"
proof -
  have "- (2 ^ 63) \<le> sint v * 1000" and "sint v * 1000 < 2 ^ 63"
    using assms by simp_all
  then show ?thesis
    by (simp add: sint_word_ariths signed_take_bit_int_eq_self)
qed

lemma ParseInt_5: "ParseInt ''5'' = Inr 5"
  by (simp add: ParseInt_eval)

text \<open>
  Claim C1, as stated, fails twice. With the variable unset the function returns 10240,
  not 10240000. And the text \<open>9223372036854775807\<close> parses as the largest \<open>int64\<close>,
  for which the product with 1000 wraps around to \<open>-1000\<close>.
\<close>

theorem getMinChecksumDeploySize_claim_counterexample:
  "getMinChecksumDeploySize Map.empty = Inr 10240 \<and>
   sint (10240 :: int64) \<noteq> 10240000 \<and>
   ParseInt ''9223372036854775807'' = Inr 9223372036854775807 \<and>
   getMinChecksumDeploySize
     [''JFROG_CLI_MIN_CHECKSUM_DEPLOY_SIZE_KB'' \<mapsto> ''9223372036854775807''] = Inr (- 1000) \<and>
   sint (- 1000 :: int64) \<noteq> sint (9223372036854775807 :: int64) * 1000"
  by (simp add: getMinChecksumDeploySize_eval)

text \<open>
  Claim C1, amended: when the environment variable is unset or empty,
  \<open>getMinChecksumDeploySize\<close> returns 10240 with no error; when its value parses (with
  \<open>strconv.ParseInt\<close>, base 10, 64 bits) as \<open>v\<close>, the function returns the 64-bit
  product \<open>v * 1000\<close> with no error, which is the integer \<open>v * 1000\<close> whenever \<open>v\<close>
  lies between \<open>-9223372036854775\<close> and \<open>9223372036854775\<close>.
\<close>

theorem getMinChecksumDeploySize_resolved:
  "(Getenv env ''JFROG_CLI_MIN_CHECKSUM_DEPLOY_SIZE_KB'' = [] \<longrightarrow>
      getMinChecksumDeploySize env = Inr 10240) \<and>
   (ParseInt (Getenv env ''JFROG_CLI_MIN_CHECKSUM_DEPLOY_SIZE_KB'') = Inr v \<longrightarrow>
      getMinChecksumDeploySize env = Inr (v * 1000) \<and>
      (- 9223372036854775 \<le> sint v \<and> sint v \<le> 9223372036854775 \<longrightarrow>
         sint (v * 1000) = sint v * 1000))"
  using getMinChecksumDeploySize_unset getMinChecksumDeploySize_numeric sint_times_1000
  by blast

theorem getMinChecksumDeploySize_resolved_witness:
  "getMinChecksumDeploySize Map.empty = Inr 10240 \<and>
   getMinChecksumDeploySize [''JFROG_CLI_MIN_CHECKSUM_DEPLOY_SIZE_KB'' \<mapsto> ''5''] = Inr 5000 \<and>
   sint (5 * 1000 :: int64) = 5000"
  using getMinChecksumDeploySize_resolved [of Map.empty 0]
    getMinChecksumDeploySize_resolved [of "[''JFROG_CLI_MIN_CHECKSUM_DEPLOY_SIZE_KB'' \<mapsto> ''5'']" 5]
    ParseInt_5
  by (simp add: Getenv_def)

text \<open>
  Claim C8, as stated, fails: the override \<open>-1\<close> is numeric and resolves to \<open>-1000\<close>,
  and so does the override \<open>9223372036854775807\<close>, by wrap-around.
\<close>

theorem getMinChecksumDeploySize_negative_counterexample:
  "getMinChecksumDeploySize [''JFROG_CLI_MIN_CHECKSUM_DEPLOY_SIZE_KB'' \<mapsto> ''-1''] = Inr (- 1000) \<and>
   getMinChecksumDeploySize
     [''JFROG_CLI_MIN_CHECKSUM_DEPLOY_SIZE_KB'' \<mapsto> ''9223372036854775807''] = Inr (- 1000) \<and>
   sint (- 1000 :: int64) < 0"
  by (simp add: getMinChecksumDeploySize_eval)

text \<open>
  Claim C8, amended: the size \<open>getMinChecksumDeploySize\<close> returns without error is at
  least 0 when the environment variable is unset or empty, and when its value parses as
  an integer between 0 and \<open>9223372036854775\<close>.
\<close>

theorem getMinChecksumDeploySize_nonneg:
  assumes "getMinChecksumDeploySize env = Inr r"
    and "Getenv env ''JFROG_CLI_MIN_CHECKSUM_DEPLOY_SIZE_KB'' = [] \<or>
         (\<exists>v. ParseInt (Getenv env ''JFROG_CLI_MIN_CHECKSUM_DEPLOY_SIZE_KB'') = Inr v \<and>
              0 \<le> sint v \<and> sint v \<le> 9223372036854775)"
  shows "0 \<le> sint r"
  using assms(2)
proof
  assume "Getenv env ''JFROG_CLI_MIN_CHECKSUM_DEPLOY_SIZE_KB'' = []"
  then have "r = 10240"
    using assms(1) getMinChecksumDeploySize_unset by fastforce
  then show ?thesis by simp
next
  assume "\<exists>v. ParseInt (Getenv env ''JFROG_CLI_MIN_CHECKSUM_DEPLOY_SIZE_KB'') = Inr v \<and>
              0 \<le> sint v \<and> sint v \<le> 9223372036854775"
  then obtain v where v:
    "ParseInt (Getenv env ''JFROG_CLI_MIN_CHECKSUM_DEPLOY_SIZE_KB'') = Inr v"
    "0 \<le> sint v" "sint v \<le> 9223372036854775"
    by blast
  then have "r = v * 1000"
    using assms(1) getMinChecksumDeploySize_numeric by fastforce
  moreover have "sint (v * 1000) = sint v * 1000"
    using v sint_times_1000 by simp
  ultimately show ?thesis using v by simp
qed

theorem getMinChecksumDeploySize_nonneg_witness:
  "getMinChecksumDeploySize [''JFROG_CLI_MIN_CHECKSUM_DEPLOY_SIZE_KB'' \<mapsto> ''5''] = Inr 5000 \<and>
   0 \<le> sint (5000 :: int64)"
proof -
  have g: "getMinChecksumDeploySize [''JFROG_CLI_MIN_CHECKSUM_DEPLOY_SIZE_KB'' \<mapsto> ''5'']
             = Inr 5000"
    by (simp add: getMinChecksumDeploySize_eval)
  have p: "Getenv [''JFROG_CLI_MIN_CHECKSUM_DEPLOY_SIZE_KB'' \<mapsto> ''5'']
             ''JFROG_CLI_MIN_CHECKSUM_DEPLOY_SIZE_KB'' = [] \<or>
           (\<exists>v. ParseInt (Getenv [''JFROG_CLI_MIN_CHECKSUM_DEPLOY_SIZE_KB'' \<mapsto> ''5'']
                   ''JFROG_CLI_MIN_CHECKSUM_DEPLOY_SIZE_KB'') = Inr v \<and>
                0 \<le> sint v \<and> sint v \<le> 9223372036854775)"
    using ParseInt_5 by (simp add: Getenv_def)
  show ?thesis
    using getMinChecksumDeploySize_nonneg [OF g p] g by simp
qed

section \<open>Properties of the build property injector\<close>

lemma HasSuffix_separator: "HasSuffix p '';'' \<longleftrightarrow> endsWithSeparator p"
proof (cases p rule: rev_cases)
  case Nil
  then show ?thesis by (simp add: HasSuffix_def endsWithSeparator_def)
next
  case (snoc ys y)
  then show ?thesis by (auto simp: HasSuffix_def endsWithSeparator_def)
qed

text \<open>
  Claim C6: with build name and build number both non-empty and a non-empty fragment
  \<open>f\<close> from the formatter, \<open>addBuildProps\<close> makes of the property string \<open>p\<close> the
  string \<open>p;f\<close> when \<open>p\<close> is non-empty and does not end with \<open>;\<close>, and \<open>pf\<close>
  otherwise; with an empty build name or build number it returns \<open>p\<close> unchanged, with
  no error (and without calling the formatter).
\<close>

theorem addBuildProps_append_rule:
  "(buildName \<noteq> [] \<and> buildNumber \<noteq> [] \<and>
      CreateBuildProperties c tr buildName buildNumber = (fragment, None) \<and> fragment \<noteq> [] \<longrightarrow>
      addBuildProps c tr p buildName buildNumber =
        (if p \<noteq> [] \<and> \<not> endsWithSeparator p then p @ '';'' @ fragment else p @ fragment,
         None, tr @ [E_CreateBuildProperties buildName buildNumber])) \<and>
   (buildName = [] \<or> buildNumber = [] \<longrightarrow>
      addBuildProps c tr p buildName buildNumber = (p, None, tr))"
  by (simp add: addBuildProps_def HasSuffix_separator)

theorem addBuildProps_append_rule_witness:
  "addBuildProps sampleCollaborators [] ''a=1'' ''x'' ''1'' =
     (''a=1;build.name=x;build.number=1'', None, [E_CreateBuildProperties ''x'' ''1'']) \<and>
   addBuildProps sampleCollaborators [] ''a=1;'' ''x'' ''1'' =
     (''a=1;build.name=x;build.number=1'', None, [E_CreateBuildProperties ''x'' ''1'']) \<and>
   addBuildProps sampleCollaborators [] ''a=1'' [] ''1'' = (''a=1'', None, [])"
  using addBuildProps_append_rule [of "''x''" "''1''" sampleCollaborators "[]" "''build.name=x;build.number=1''" "''a=1''"]
    addBuildProps_append_rule [of "''x''" "''1''" sampleCollaborators "[]" "''build.name=x;build.number=1''" "''a=1;''"]
    addBuildProps_append_rule [of "[]" "''1''" sampleCollaborators "[]" "[]" "''a=1''"]
  by (simp add: sampleCollaborators_def endsWithSeparator_def)

text \<open>
  Claim C7: with build name and build number both non-empty, when the formatter returns
  an error, \<open>addBuildProps\<close> returns that error and the property string it was given.
\<close>

theorem addBuildProps_formatter_error:
  assumes "buildName \<noteq> []" and "buildNumber \<noteq> []"
    and "CreateBuildProperties c tr buildName buildNumber = (fragment, Some e)"
  shows "addBuildProps c tr p buildName buildNumber =
           (p, Some e, tr @ [E_CreateBuildProperties buildName buildNumber])"
  using assms by (simp add: addBuildProps_def)

theorem addBuildProps_formatter_error_witness:
  "addBuildProps failingFormatter [] ''a=1'' ''x'' ''1'' =
     (''a=1'', Some (ErrorString ''cannot read build details''),
      [E_CreateBuildProperties ''x'' ''1''])"
  using addBuildProps_formatter_error
    [of "''x''" "''1''" failingFormatter "[]" "''build.name=b''"
        "ErrorString ''cannot read build details''" "''a=1''"]
  by (simp add: failingFormatter_def sampleCollaborators_def)

section \<open>Properties of the loop and of the preflight\<close>

lemma convertLoop_eq:
  "i + length fs = length bs \<Longrightarrow>
   convertLoop g fs i bs = Some (take i bs @ map g fs)"
proof (induction fs arbitrary: i bs)
  case Nil
  then show ?case by simp
next
  case (Cons f fs)
  then have i: "i < length bs" by simp
  have "convertLoop g (f # fs) i bs = convertLoop g fs (Suc i) (bs[i := g f])"
    using i by simp
  also have "\<dots> = Some (take (Suc i) (bs[i := g f]) @ map g fs)"
    using Cons.prems by (intro Cons.IH) simp
  also have "take (Suc i) (bs[i := g f]) = take i bs @ [g f]"
    using i by (simp add: take_Suc_conv_app_nth)
  finally show ?case by simp
qed

lemma convert_eq: "convertFileInfoToBuildArtifacts g fs = Some (map g fs)"
  by (simp add: convertFileInfoToBuildArtifacts_def convertLoop_eq)

subsection \<open>What the trace functions do on appended traces\<close>

lemma collected_append: "collected (xs @ ys) = collected xs @ collected ys"
  by (simp add: collected_def)
lemma uploadedTotal_append: "uploadedTotal (xs @ ys) = uploadedTotal xs + uploadedTotal ys"
  by (simp add: uploadedTotal_def)
lemma failedTotal_append: "failedTotal (xs @ ys) = failedTotal xs + failedTotal ys"
  by (simp add: failedTotal_def)

lemmas trace_append = collected_append uploadedTotal_append failedTotal_append
lemmas trace_single = collected_def uploadedTotal_def failedTotal_def

subsection \<open>One iteration of the upload loop\<close>

lemma uploadEntry_error:
  "getUploadParams f conf = Inl e \<Longrightarrow>
   uploadEntry m conf f st = st\<lparr>errorOccurred := True, trace := trace st @ [E_LogError e]\<rparr>"
  by (simp add: uploadEntry_def)

lemma uploadEntry_accounted:
  assumes "accounted st"
  shows "accounted (uploadEntry m conf f st)"
proof (cases "getUploadParams f conf")
  case (Inl e)
  then show ?thesis using assms
    by (simp add: uploadEntry_error accounted_def trace_append) (simp add: trace_single)
next
  case (Inr p)
  obtain a u fl er where r: "m (trace st) p = (a, u, fl, er)"
    by (cases "m (trace st) p") auto
  show ?thesis
  proof (cases er)
    case None
    then show ?thesis using assms Inr r
      by (simp add: uploadEntry_def accounted_def trace_append) (simp add: trace_single)
  next
    case (Some e)
    then show ?thesis using assms Inr r
      by (simp add: uploadEntry_def accounted_def trace_append) (simp add: trace_single)
  qed
qed

lemma uploadEntry_errorOccurred:
  "errorOccurred (uploadEntry m conf f st) =
     (errorOccurred st \<or> entryError m conf f st \<noteq> None)"
proof (cases "getUploadParams f conf")
  case (Inl e)
  then show ?thesis by (simp add: uploadEntry_error entryError_def)
next
  case (Inr p)
  obtain a u fl er where r: "m (trace st) p = (a, u, fl, er)"
    by (cases "m (trace st) p") auto
  show ?thesis using Inr r
    by (cases er) (simp_all add: uploadEntry_def entryError_def)
qed

lemma uploadEntry_trace_extends:
  "\<exists>new. trace (uploadEntry m conf f st) = trace st @ new \<and>
         \<not> list_ex preflightEvent new"
proof (cases "getUploadParams f conf")
  case (Inl e)
  then show ?thesis by (simp add: uploadEntry_error preflightEvent_def)
next
  case (Inr p)
  obtain a u fl er where r: "m (trace st) p = (a, u, fl, er)"
    by (cases "m (trace st) p") auto
  show ?thesis using Inr r
    by (cases er) (simp_all add: uploadEntry_def preflightEvent_def)
qed

subsection \<open>The upload loop\<close>


lemma uploadLoop_accounted:
  "accounted st \<Longrightarrow> accounted (uploadLoop m conf fs st)"
  by (induction fs arbitrary: st) (simp_all add: uploadEntry_accounted)

lemma uploadLoop_errorOccurred:
  "errorOccurred (uploadLoop m conf fs st) =
     (errorOccurred st \<or> entryErrors m conf fs st \<noteq> [])"
proof (induction fs arbitrary: st)
  case Nil
  then show ?case by simp
next
  case (Cons f fs)
  show ?case
    by (cases "entryError m conf f st") (simp_all add: Cons.IH uploadEntry_errorOccurred)
qed

lemma uploadLoop_trace_extends:
  "\<exists>new. trace (uploadLoop m conf fs st) = trace st @ new \<and>
         \<not> list_ex preflightEvent new"
proof (induction fs arbitrary: st)
  case Nil
  then show ?case by simp
next
  case (Cons f fs)
  obtain n1 where n1: "trace (uploadEntry m conf f st) = trace st @ n1"
    "\<not> list_ex preflightEvent n1"
    using uploadEntry_trace_extends by blast
  obtain n2 where n2: "trace (uploadLoop m conf fs (uploadEntry m conf f st)) =
      trace (uploadEntry m conf f st) @ n2" "\<not> list_ex preflightEvent n2"
    using Cons.IH by blast
  have "trace (uploadLoop m conf (f # fs) st) = trace st @ (n1 @ n2)"
    using n1 n2 by simp
  moreover have "\<not> list_ex preflightEvent (n1 @ n2)"
    using n1 n2 by simp
  ultimately show ?case by blast
qed

subsection \<open>The build-info preflight\<close>

lemma addBuildProps_trace:
  "addBuildProps c tr p n b = (p', e, tr') \<Longrightarrow>
   \<exists>new. tr' = tr @ new \<and> list_all preflightEvent new"
  by (auto simp: addBuildProps_def preflightEvent_def Let_def split: if_splits prod.splits)

lemma addBuildPropsLoop_facts:
  "addBuildPropsLoop c n b fs tr = (fs', tr') \<Longrightarrow>
   list_all2 sameButProps fs fs' \<and> (\<exists>new. tr' = tr @ new \<and> list_all preflightEvent new)"
proof (induction fs arbitrary: tr fs' tr')
  case Nil
  then show ?case by simp
next
  case (Cons f fs)
  obtain p e t1 where a: "addBuildProps c tr (Props f) n b = (p, e, t1)"
    by (cases "addBuildProps c tr (Props f) n b") auto
  obtain fs1 t2 where l: "addBuildPropsLoop c n b fs t1 = (fs1, t2)"
    by (cases "addBuildPropsLoop c n b fs t1") auto
  from Cons.prems a l have eq: "fs' = f\<lparr>Props := p\<rparr> # fs1" "tr' = t2"
    by simp_all
  from Cons.IH [OF l] obtain n2 where ih: "list_all2 sameButProps fs fs1"
    "t2 = t1 @ n2" "list_all preflightEvent n2" by blast
  from addBuildProps_trace [OF a] obtain n1 where n1: "t1 = tr @ n1" "list_all preflightEvent n1"
    by blast
  have "list_all2 sameButProps (f # fs) fs'"
    using eq ih by (simp add: sameButProps_def)
  moreover have "tr' = tr @ (n1 @ n2)" "list_all preflightEvent (n1 @ n2)"
    using eq ih n1 by simp_all
  ultimately show ?case by blast
qed

lemma preflightEvent_quiet:
  "list_all preflightEvent tr \<Longrightarrow>
   collected tr = [] \<and> uploadedTotal tr = 0 \<and> failedTotal tr = 0 \<and>
   \<not> list_ex isLogError tr \<and> \<not> list_ex isCommit tr"
proof (induction tr)
  case Nil
  then show ?case by (simp add: trace_single)
next
  case (Cons ev tr)
  then show ?case
    by (cases ev) (simp_all add: trace_single preflightEvent_def)
qed

lemma Upload_preflight_facts:
  assumes "Upload_preflight c s conf = Inr (s1, tr)"
  shows "list_all2 sameButProps (Files s) (Files s1)" and "list_all preflightEvent tr"
    and "(DryRun conf \<or> \<not> isCollectBuildInfo conf) \<longrightarrow> s1 = s \<and> tr = []"
    and "isCollectBuildInfo conf \<and> \<not> DryRun conf \<longrightarrow>
           SaveBuildGeneralDetails c [] (BuildName conf) (BuildNumber conf) = None \<and>
           list_ex isGeneralSave tr"
proof -
  let ?g = "E_SaveBuildGeneralDetails (BuildName conf) (BuildNumber conf)"
  have refl: "list_all2 sameButProps (Files s) (Files s)"
    by (simp add: list_all2_refl sameButProps_def)
  show "list_all2 sameButProps (Files s) (Files s1)"
  proof (cases "isCollectBuildInfo conf \<and> \<not> DryRun conf")
    case False
    then show ?thesis using assms refl by (auto simp: Upload_preflight_def)
  next
    case True
    obtain fs t where l: "addBuildPropsLoop c (BuildName conf) (BuildNumber conf) (Files s) [?g] = (fs, t)"
      by (cases "addBuildPropsLoop c (BuildName conf) (BuildNumber conf) (Files s) [?g]") auto
    with True assms have "s1 = s\<lparr>Files := fs\<rparr>"
      by (auto simp: Upload_preflight_def split: option.splits)
    then show ?thesis using addBuildPropsLoop_facts [OF l] by simp
  qed
  show "list_all preflightEvent tr"
  proof (cases "isCollectBuildInfo conf \<and> \<not> DryRun conf")
    case False
    then show ?thesis using assms by (auto simp: Upload_preflight_def)
  next
    case True
    obtain fs t where l: "addBuildPropsLoop c (BuildName conf) (BuildNumber conf) (Files s) [?g] = (fs, t)"
      by (cases "addBuildPropsLoop c (BuildName conf) (BuildNumber conf) (Files s) [?g]") auto
    with True assms have "tr = t"
      by (auto simp: Upload_preflight_def split: option.splits)
    then show ?thesis using addBuildPropsLoop_facts [OF l] by (auto simp: preflightEvent_def)
  qed
  show "(DryRun conf \<or> \<not> isCollectBuildInfo conf) \<longrightarrow> s1 = s \<and> tr = []"
    using assms by (auto simp: Upload_preflight_def)
  show "isCollectBuildInfo conf \<and> \<not> DryRun conf \<longrightarrow>
           SaveBuildGeneralDetails c [] (BuildName conf) (BuildNumber conf) = None \<and>
           list_ex isGeneralSave tr"
  proof
    assume True: "isCollectBuildInfo conf \<and> \<not> DryRun conf"
    obtain fs t where l: "addBuildPropsLoop c (BuildName conf) (BuildNumber conf) (Files s) [?g] = (fs, t)"
      by (cases "addBuildPropsLoop c (BuildName conf) (BuildNumber conf) (Files s) [?g]") auto
    with True assms have "tr = t" "SaveBuildGeneralDetails c [] (BuildName conf) (BuildNumber conf) = None"
      by (auto simp: Upload_preflight_def split: option.splits)
    then show "SaveBuildGeneralDetails c [] (BuildName conf) (BuildNumber conf) = None \<and>
           list_ex isGeneralSave tr" using addBuildPropsLoop_facts [OF l] by auto
  qed
qed

lemma loopStart_accounted: "list_all preflightEvent tr \<Longrightarrow> accounted (loopStart tr)"
  using preflightEvent_quiet [of tr] by (simp add: accounted_def loopStart_def)

section \<open>Properties of the orchestrator\<close>

lemma Upload_reached:
  assumes "Upload_init c conf = Inr m" and "Upload_preflight c s conf = Inr (s1, tr)"
  shows "Upload c s conf = Upload_finish c s1 conf (loopEnd m conf s1 tr)"
  using assms by (simp add: Upload_def loopEnd_def)

lemma Upload_finish_counts:
  "res_successCount (Upload_finish c s conf st) = successCount st \<and>
   res_failCount (Upload_finish c s conf st) = failCount st \<and>
   res_uploadSpec (Upload_finish c s conf st) = s"
  by (simp add: Upload_finish_def convert_eq Let_def)

lemma Upload_finish_trace:
  "res_trace (Upload_finish c s conf st) =
     (if \<not> errorOccurred st \<and> \<not> 0 < sint (failCount st) \<and> isCollectBuildInfo conf \<and>
         \<not> DryRun conf
      then trace st @ [E_SavePartialBuildInfo (BuildName conf) (BuildNumber conf)
                         \<lparr>Artifacts = map (ToBuildArtifacts c) (filesInfo st)\<rparr>]
      else trace st)"
  by (simp add: Upload_finish_def convert_eq Let_def)


lemma Upload_finish_errors:
  "errorOccurred st \<Longrightarrow>
   Upload_finish c s conf st =
     \<lparr>res_successCount = successCount st, res_failCount = failCount st,
      res_err = Some (ErrorString ''Upload finished with errors. Please review the logs''),
      res_trace = trace st, res_uploadSpec = s\<rparr>"
  by (simp add: Upload_finish_def)

lemma Upload_finish_soft:
  "\<not> errorOccurred st \<Longrightarrow> 0 < sint (failCount st) \<Longrightarrow>
   Upload_finish c s conf st =
     \<lparr>res_successCount = successCount st, res_failCount = failCount st,
      res_err = None, res_trace = trace st, res_uploadSpec = s\<rparr>"
  by (simp add: Upload_finish_def)

lemma Upload_finish_commit:
  "\<not> errorOccurred st \<Longrightarrow> \<not> 0 < sint (failCount st) \<Longrightarrow> isCollectBuildInfo conf \<Longrightarrow>
   \<not> DryRun conf \<Longrightarrow>
   Upload_finish c s conf st =
     \<lparr>res_successCount = successCount st, res_failCount = failCount st,
      res_err = SavePartialBuildInfo c (trace st) (BuildName conf) (BuildNumber conf)
                  (\<lambda>partial. partial\<lparr>Artifacts := map (ToBuildArtifacts c) (filesInfo st)\<rparr>),
      res_trace = trace st @
        [E_SavePartialBuildInfo (BuildName conf) (BuildNumber conf)
           \<lparr>Artifacts = map (ToBuildArtifacts c) (filesInfo st)\<rparr>],
      res_uploadSpec = s\<rparr>"
  by (simp add: Upload_finish_def convert_eq Let_def)

lemma loop_final:
  assumes "Upload_preflight c s conf = Inr (s1, tr)"
  shows "accounted (loopEnd m conf s1 tr)"
    and "errorOccurred (loopEnd m conf s1 tr) =
           (entryErrors m conf (Files s1) (loopStart tr) \<noteq> [])"
  using Upload_preflight_facts(2) [OF assms] loopStart_accounted uploadLoop_accounted
    uploadLoop_errorOccurred [of m conf "Files s1" "loopStart tr"]
  by (simp_all add: loopStart_def loopEnd_def)

lemma Upload_init_failed:
  "Upload_init c conf = Inl e \<Longrightarrow>
   Upload c s conf = \<lparr>res_successCount = 0, res_failCount = 0, res_err = Some e,
                      res_trace = [], res_uploadSpec = s\<rparr>"
  by (simp add: Upload_def)

lemma Upload_preflight_failed:
  "Upload_init c conf = Inr m \<Longrightarrow> Upload_preflight c s conf = Inl (e, tr) \<Longrightarrow>
   Upload c s conf = \<lparr>res_successCount = 0, res_failCount = 0, res_err = Some e,
                      res_trace = tr, res_uploadSpec = s\<rparr>"
  by (simp add: Upload_def)

lemma Upload_preflight_Inl:
  "Upload_preflight c s conf = Inl (e, tr) \<longleftrightarrow>
     isCollectBuildInfo conf \<and> \<not> DryRun conf \<and>
     SaveBuildGeneralDetails c [] (BuildName conf) (BuildNumber conf) = Some e \<and>
     tr = [E_SaveBuildGeneralDetails (BuildName conf) (BuildNumber conf)]"
  by (auto simp: Upload_preflight_def Let_def split: option.splits prod.splits)

lemma isCollectBuildInfo_iff:
  "isCollectBuildInfo conf \<longleftrightarrow> BuildName conf \<noteq> [] \<and> BuildNumber conf \<noteq> []"
  by (simp add: isCollectBuildInfo_def)

lemma logged_iff:
  assumes "Upload_init c conf = Inr m" and "Upload_preflight c s conf = Inr (s1, tr)"
  shows "list_ex isLogError (res_trace (Upload c s conf)) \<longleftrightarrow>
           entryErrors m conf (Files s1) (loopStart tr) \<noteq> []"
proof -
  let ?st = "loopEnd m conf s1 tr"
  have "errorOccurred ?st = list_ex isLogError (trace ?st)"
    using loop_final(1) [OF assms(2), of m] by (simp add: accounted_def)
  then show ?thesis
    using loop_final(2) [OF assms(2), of m]
    by (simp add: Upload_reached [OF assms] Upload_finish_trace)
qed

lemmas sample_eval =
  sampleCollaborators_def sampleConfiguration_def sampleFile_def sampleManager_def
  sampleInfo_def sampleProjection_def
  Upload_def Upload_init_def Upload_preflight_def Upload_finish_def loopStart_def loopEnd_def
  isCollectBuildInfo_def createUploadServiceConfig_def getMinChecksumDeploySize_def Getenv_def
  uploadEntry_def getUploadParams_def IsRecursive_def IsRegexp_def IsIncludeDirs_def
  IsFlat_def IsExplode_def StringToBool_def ParseBool_def ToArtifactoryCommonParams_def
  addBuildProps_def HasSuffix_def convert_eq Let_def

lemma sample_init:
  "Upload_init sampleCollaborators (sampleConfiguration n b d) = Inr sampleManager"
  by (simp add: sampleCollaborators_def sampleConfiguration_def Upload_init_def
      createUploadServiceConfig_def getMinChecksumDeploySize_def Getenv_def)

lemma sample_preflight_off:
  "Upload_preflight sampleCollaborators s (sampleConfiguration [] [] False) = Inr (s, [])"
  by (simp add: Upload_preflight_def isCollectBuildInfo_def sampleConfiguration_def)

lemmas entry_eval = entryError_def sample_eval

text \<open>
  Claim C2: in a run that reaches the upload loop (the service manager was created and
  the preflight did not fail), the two counters of the loop are the sums, as Go adds
  them, of the counts the client handed back, and \<open>Upload\<close> returns them. If an
  entry's parameter build or client call returned an error, \<open>Upload\<close> returns the
  counters with the error \<open>Upload finished with errors\<close>; if no entry did and the
  counter of failed files is positive, it returns them with no error. In both cases
  nothing is called after the loop.
\<close>

theorem Upload_outcome_after_loop:
  assumes "Upload_init c conf = Inr m" and "Upload_preflight c s conf = Inr (s1, tr)"
  shows "successCount (loopEnd m conf s1 tr) = uploadedTotal (trace (loopEnd m conf s1 tr)) \<and>
         failCount (loopEnd m conf s1 tr) = failedTotal (trace (loopEnd m conf s1 tr)) \<and>
         res_successCount (Upload c s conf) = uploadedTotal (res_trace (Upload c s conf)) \<and>
         res_failCount (Upload c s conf) = failedTotal (res_trace (Upload c s conf)) \<and>
         (entryErrors m conf (Files s1) (loopStart tr) \<noteq> [] \<longrightarrow>
            Upload c s conf =
              \<lparr>res_successCount = successCount (loopEnd m conf s1 tr),
               res_failCount = failCount (loopEnd m conf s1 tr),
               res_err = Some (ErrorString ''Upload finished with errors. Please review the logs''),
               res_trace = trace (loopEnd m conf s1 tr),
               res_uploadSpec = s1\<rparr>) \<and>
         (entryErrors m conf (Files s1) (loopStart tr) = [] \<and>
          0 < sint (failCount (loopEnd m conf s1 tr)) \<longrightarrow>
            Upload c s conf =
              \<lparr>res_successCount = successCount (loopEnd m conf s1 tr),
               res_failCount = failCount (loopEnd m conf s1 tr),
               res_err = None,
               res_trace = trace (loopEnd m conf s1 tr),
               res_uploadSpec = s1\<rparr>)"
proof -
  let ?st = "loopEnd m conf s1 tr"
  have acc: "accounted ?st"
    and eo: "errorOccurred ?st = (entryErrors m conf (Files s1) (loopStart tr) \<noteq> [])"
    using loop_final [OF assms(2)] by simp_all
  have u: "Upload c s conf = Upload_finish c s1 conf ?st"
    using Upload_reached [OF assms] .
  have sums: "successCount ?st = uploadedTotal (trace ?st)" "failCount ?st = failedTotal (trace ?st)"
    using acc by (simp_all add: accounted_def)
  have "uploadedTotal (res_trace (Upload_finish c s1 conf ?st)) = successCount ?st"
    and "failedTotal (res_trace (Upload_finish c s1 conf ?st)) = failCount ?st"
    using sums by (simp_all add: Upload_finish_trace trace_append) (simp_all add: trace_single)
  then show ?thesis
    using eo sums
    by (simp add: u Upload_finish_counts Upload_finish_errors Upload_finish_soft)
qed

theorem Upload_outcome_after_loop_witness:
  "Upload sampleCollaborators \<lparr>Files = [sampleFile ''x'', sampleFile ''partial'']\<rparr>
      (sampleConfiguration [] [] False) =
     \<lparr>res_successCount = 5, res_failCount = 1, res_err = None,
      res_trace = trace (loopEnd sampleManager (sampleConfiguration [] [] False)
                    \<lparr>Files = [sampleFile ''x'', sampleFile ''partial'']\<rparr> []),
      res_uploadSpec = \<lparr>Files = [sampleFile ''x'', sampleFile ''partial'']\<rparr>\<rparr> \<and>
   entryErrors sampleManager (sampleConfiguration [] [] False)
      [sampleFile ''x'', sampleFile ''broken''] (loopStart []) = [ErrorString ''transfer failed''] \<and>
   Upload sampleCollaborators \<lparr>Files = [sampleFile ''x'', sampleFile ''broken'']\<rparr>
      (sampleConfiguration [] [] False) =
     \<lparr>res_successCount = 3, res_failCount = 0,
      res_err = Some (ErrorString ''Upload finished with errors. Please review the logs''),
      res_trace = trace (loopEnd sampleManager (sampleConfiguration [] [] False)
                    \<lparr>Files = [sampleFile ''x'', sampleFile ''broken'']\<rparr> []),
      res_uploadSpec = \<lparr>Files = [sampleFile ''x'', sampleFile ''broken'']\<rparr>\<rparr>"
proof -
  let ?conf = "sampleConfiguration [] [] False"
  let ?s1 = "\<lparr>Files = [sampleFile ''x'', sampleFile ''partial'']\<rparr>"
  let ?s2 = "\<lparr>Files = [sampleFile ''x'', sampleFile ''broken'']\<rparr>"
  have e1: "entryErrors sampleManager ?conf (Files ?s1) (loopStart []) = []"
    by (simp add: entry_eval)
  have e2: "entryErrors sampleManager ?conf (Files ?s2) (loopStart []) =
      [ErrorString ''transfer failed'']"
    by (simp add: entry_eval)
  have c1: "successCount (loopEnd sampleManager ?conf ?s1 []) = 5"
    "failCount (loopEnd sampleManager ?conf ?s1 []) = 1"
    by (simp_all add: sample_eval)
  have c2: "successCount (loopEnd sampleManager ?conf ?s2 []) = 3"
    "failCount (loopEnd sampleManager ?conf ?s2 []) = 0"
    by (simp_all add: sample_eval)
  show ?thesis
    using Upload_outcome_after_loop [OF sample_init sample_preflight_off, of ?s1]
      Upload_outcome_after_loop [OF sample_init sample_preflight_off, of ?s2]
      e1 e2 c1 c2
    by simp
qed

lemma commit_iff:
  "list_ex isCommit (res_trace (Upload c s conf)) \<longleftrightarrow>
     \<not> isl (Upload_init c conf) \<and>
     SaveBuildGeneralDetails c [] (BuildName conf) (BuildNumber conf) = None \<and>
     BuildName conf \<noteq> [] \<and> BuildNumber conf \<noteq> [] \<and> \<not> DryRun conf \<and>
     \<not> list_ex isLogError (res_trace (Upload c s conf)) \<and>
     sint (res_failCount (Upload c s conf)) \<le> 0"
proof (cases "Upload_init c conf")
  case (Inl e)
  then show ?thesis by (simp add: Upload_init_failed)
next
  case (Inr m)
  show ?thesis
  proof (cases "Upload_preflight c s conf")
    case (Inl et)
    obtain e tr where et: "et = (e, tr)" by (cases et)
    have pre: "Upload_preflight c s conf = Inl (e, tr)" using Inl et by simp
    then have "SaveBuildGeneralDetails c [] (BuildName conf) (BuildNumber conf) = Some e"
      and "tr = [E_SaveBuildGeneralDetails (BuildName conf) (BuildNumber conf)]"
      by (simp_all add: Upload_preflight_Inl)
    then show ?thesis
      by (simp add: Upload_preflight_failed [OF Inr pre])
  next
    case (Inr st)
    obtain s1 tr where st: "st = (s1, tr)" by (cases st)
    have pre: "Upload_preflight c s conf = Inr (s1, tr)" using Inr st by simp
    let ?st = "loopEnd m conf s1 tr"
    have acc: "\<not> list_ex isCommit (trace ?st)"
      "errorOccurred ?st = list_ex isLogError (trace ?st)"
      using loop_final(1) [OF pre, of m] by (simp_all add: accounted_def)
    have u: "Upload c s conf = Upload_finish c s1 conf ?st"
      using Upload_reached [OF \<open>Upload_init c conf = Inr m\<close> pre] .
    have save: "isCollectBuildInfo conf \<and> \<not> DryRun conf \<longrightarrow>
        SaveBuildGeneralDetails c [] (BuildName conf) (BuildNumber conf) = None"
      using Upload_preflight_facts(4) [OF pre] by simp
    show ?thesis
      using acc save \<open>Upload_init c conf = Inr m\<close>
      by (auto simp: u Upload_finish_counts Upload_finish_trace isCollectBuildInfo_iff)
  qed
qed

lemma dry_run_quiet:
  assumes "DryRun conf"
  shows "\<not> list_ex isGeneralSave (res_trace (Upload c s conf)) \<and>
         \<not> list_ex isPropsCall (res_trace (Upload c s conf)) \<and>
         \<not> list_ex isCommit (res_trace (Upload c s conf)) \<and>
         res_uploadSpec (Upload c s conf) = s"
proof (cases "Upload_init c conf")
  case (Inl e)
  then show ?thesis by (simp add: Upload_init_failed)
next
  case (Inr m)
  have pre: "Upload_preflight c s conf = Inr (s, [])"
    using assms by (simp add: Upload_preflight_def)
  let ?st = "loopEnd m conf s []"
  have u: "Upload c s conf = Upload_finish c s conf ?st"
    using Upload_reached [OF Inr pre] .
  obtain new where new: "trace ?st = trace (loopStart []) @ new" "\<not> list_ex preflightEvent new"
    using uploadLoop_trace_extends unfolding loopEnd_def by blast
  then have "trace ?st = new" by (simp add: loopStart_def)
  then have quiet: "\<not> list_ex isGeneralSave (trace ?st)" "\<not> list_ex isPropsCall (trace ?st)"
    using new(2) by (auto simp: preflightEvent_def list_ex_iff)
  have "\<not> list_ex isCommit (trace ?st)"
    using loop_final(1) [OF pre, of m] by (simp add: accounted_def)
  then show ?thesis
    using quiet assms by (simp add: u Upload_finish_counts Upload_finish_trace)
qed

text \<open>
  Claim C3, as stated, fails. With build name and build number set and dry-run off, a
  run in which the general details cannot be saved returns before the loop: no entry
  produced an error, the count of failed files is 0, and nothing is committed. And the
  code tests whether the counter of failed files is positive: a client that reports
  9223372036854775807 failed files for one entry and 1 for the next leaves the counter
  at -9223372036854775808, and the commit is attempted with a count that is not 0.
\<close>

theorem Upload_commit_claim_counterexample:
  "\<not> isl (Upload_init failingGeneralSave (sampleConfiguration ''b'' ''1'' False)) \<and>
   BuildName (sampleConfiguration ''b'' ''1'' False) \<noteq> [] \<and>
   BuildNumber (sampleConfiguration ''b'' ''1'' False) \<noteq> [] \<and>
   \<not> DryRun (sampleConfiguration ''b'' ''1'' False) \<and>
   \<not> list_ex isLogError
       (res_trace (Upload failingGeneralSave \<lparr>Files = [sampleFile ''x'']\<rparr>
          (sampleConfiguration ''b'' ''1'' False))) \<and>
   res_failCount (Upload failingGeneralSave \<lparr>Files = [sampleFile ''x'']\<rparr>
          (sampleConfiguration ''b'' ''1'' False)) = 0 \<and>
   \<not> list_ex isCommit
       (res_trace (Upload failingGeneralSave \<lparr>Files = [sampleFile ''x'']\<rparr>
          (sampleConfiguration ''b'' ''1'' False))) \<and>
   list_ex isCommit
       (res_trace (Upload sampleCollaborators
          \<lparr>Files = [sampleFile ''huge'', sampleFile ''partial'']\<rparr>
          (sampleConfiguration ''b'' ''1'' False))) \<and>
   sint (res_failCount (Upload sampleCollaborators
          \<lparr>Files = [sampleFile ''huge'', sampleFile ''partial'']\<rparr>
          (sampleConfiguration ''b'' ''1'' False))) = - 9223372036854775808"
  by (simp add: failingGeneralSave_def sample_eval)

text \<open>
  Claim C3, amended: in every run, \<open>Upload\<close> attempts the build-info commit if and
  only if the service manager was created, the general-details save succeeded, build
  name and build number are both non-empty, dry-run is false, no entry produced an
  error during the loop, and the count of failed files is not positive; when the count
  of failed files is not negative, the last condition is that it is 0. An entry
  produced an error exactly when an error was logged. In every run with dry-run true,
  the general details are not saved, no build property is added, nothing is committed
  and the specification is left as it was.
\<close>

theorem Upload_commit_iff:
  "(list_ex isCommit (res_trace (Upload c s conf)) \<longleftrightarrow>
      \<not> isl (Upload_init c conf) \<and>
      SaveBuildGeneralDetails c [] (BuildName conf) (BuildNumber conf) = None \<and>
      BuildName conf \<noteq> [] \<and> BuildNumber conf \<noteq> [] \<and> \<not> DryRun conf \<and>
      \<not> list_ex isLogError (res_trace (Upload c s conf)) \<and>
      sint (res_failCount (Upload c s conf)) \<le> 0) \<and>
   (0 \<le> sint (res_failCount (Upload c s conf)) \<longrightarrow>
      (list_ex isCommit (res_trace (Upload c s conf)) \<longleftrightarrow>
         \<not> isl (Upload_init c conf) \<and>
         SaveBuildGeneralDetails c [] (BuildName conf) (BuildNumber conf) = None \<and>
         BuildName conf \<noteq> [] \<and> BuildNumber conf \<noteq> [] \<and> \<not> DryRun conf \<and>
         \<not> list_ex isLogError (res_trace (Upload c s conf)) \<and>
         res_failCount (Upload c s conf) = 0)) \<and>
   (Upload_init c conf = Inr m \<and> Upload_preflight c s conf = Inr (s1, tr) \<longrightarrow>
      (list_ex isLogError (res_trace (Upload c s conf)) \<longleftrightarrow>
         entryErrors m conf (Files s1) (loopStart tr) \<noteq> [])) \<and>
   (DryRun conf \<longrightarrow>
      \<not> list_ex isGeneralSave (res_trace (Upload c s conf)) \<and>
      \<not> list_ex isPropsCall (res_trace (Upload c s conf)) \<and>
      \<not> list_ex isCommit (res_trace (Upload c s conf)) \<and>
      res_uploadSpec (Upload c s conf) = s)"
proof -
  have "0 \<le> sint (res_failCount (Upload c s conf)) \<Longrightarrow>
        sint (res_failCount (Upload c s conf)) \<le> 0 \<longleftrightarrow> res_failCount (Upload c s conf) = 0"
    by (auto simp: order_antisym signed_eq_0_iff)
  then show ?thesis
    using commit_iff [of c s conf] dry_run_quiet [of conf c s] logged_iff [of c conf m s s1 tr]
    by blast
qed

theorem Upload_commit_iff_witness:
  "list_ex isCommit (res_trace (Upload sampleCollaborators
      \<lparr>Files = [sampleFile ''x'']\<rparr> (sampleConfiguration ''b'' ''1'' False))) \<and>
   \<not> list_ex isCommit (res_trace (Upload sampleCollaborators
      \<lparr>Files = [sampleFile ''x'', sampleFile ''partial'']\<rparr> (sampleConfiguration ''b'' ''1'' False))) \<and>
   \<not> list_ex isCommit (res_trace (Upload failingGeneralSave
      \<lparr>Files = [sampleFile ''x'']\<rparr> (sampleConfiguration ''b'' ''1'' False))) \<and>
   res_trace (Upload sampleCollaborators
      \<lparr>Files = []\<rparr> (sampleConfiguration ''b'' ''1'' True)) = []"
proof -
  let ?conf = "sampleConfiguration ''b'' ''1'' False"
  let ?one = "\<lparr>Files = [sampleFile ''x'']\<rparr>"
  let ?two = "\<lparr>Files = [sampleFile ''x'', sampleFile ''partial'']\<rparr>"
  have i: "\<not> isl (Upload_init sampleCollaborators ?conf)"
    by (simp add: sample_init)
  have g: "SaveBuildGeneralDetails sampleCollaborators [] (BuildName ?conf) (BuildNumber ?conf) = None"
    "SaveBuildGeneralDetails failingGeneralSave [] (BuildName ?conf) (BuildNumber ?conf) \<noteq> None"
    by (simp_all add: sampleCollaborators_def failingGeneralSave_def)
  have l1: "\<not> list_ex isLogError (res_trace (Upload sampleCollaborators ?one ?conf))"
    by (simp add: sample_eval)
  have f1: "res_failCount (Upload sampleCollaborators ?one ?conf) = 0"
    by (simp add: sample_eval)
  have f2: "res_failCount (Upload sampleCollaborators ?two ?conf) = 1"
    by (simp add: sample_eval)
  have d: "DryRun (sampleConfiguration ''b'' ''1'' True)"
    and n: "BuildName ?conf \<noteq> [] \<and> BuildNumber ?conf \<noteq> [] \<and> \<not> DryRun ?conf"
    by (simp_all add: sampleConfiguration_def)
  have t: "res_trace (Upload sampleCollaborators
      \<lparr>Files = []\<rparr> (sampleConfiguration ''b'' ''1'' True)) = []"
    by (simp add: sample_eval)
  show ?thesis
    using Upload_commit_iff [of sampleCollaborators ?one ?conf]
      Upload_commit_iff [of sampleCollaborators ?two ?conf]
      Upload_commit_iff [of failingGeneralSave ?one ?conf]
      Upload_commit_iff [of sampleCollaborators "\<lparr>Files = []\<rparr>" "sampleConfiguration ''b'' ''1'' True"]
      i g l1 f1 f2 d n t
    by simp
qed

text \<open>
  Claim C4 does not hold of the code: the preflight drops the error \<open>addBuildProps\<close>
  returns. With one entry, build \<open>b\<close> number \<open>1\<close>, dry-run off and a formatter that
  fails, \<open>addBuildProps\<close> returns the formatter's error, and the run logs no error,
  returns no error and commits the build-info.
\<close>

theorem Upload_discards_addBuildProps_error:
  "addBuildProps failingFormatter [E_SaveBuildGeneralDetails ''b'' ''1''] ''a=1'' ''b'' ''1'' =
     (''a=1'', Some (ErrorString ''cannot read build details''),
      [E_SaveBuildGeneralDetails ''b'' ''1'', E_CreateBuildProperties ''b'' ''1'']) \<and>
   res_err (Upload failingFormatter \<lparr>Files = [sampleFile ''x'']\<rparr>
              (sampleConfiguration ''b'' ''1'' False)) = None \<and>
   res_successCount (Upload failingFormatter \<lparr>Files = [sampleFile ''x'']\<rparr>
              (sampleConfiguration ''b'' ''1'' False)) = 3 \<and>
   res_failCount (Upload failingFormatter \<lparr>Files = [sampleFile ''x'']\<rparr>
              (sampleConfiguration ''b'' ''1'' False)) = 0 \<and>
   \<not> list_ex isLogError
       (res_trace (Upload failingFormatter \<lparr>Files = [sampleFile ''x'']\<rparr>
              (sampleConfiguration ''b'' ''1'' False))) \<and>
   list_ex isCommit
       (res_trace (Upload failingFormatter \<lparr>Files = [sampleFile ''x'']\<rparr>
              (sampleConfiguration ''b'' ''1'' False)))"
  by (simp add: failingFormatter_def sample_eval)









lemma commit_payload:
  assumes "E_SavePartialBuildInfo n b payload \<in> set (res_trace (Upload c s conf))"
  shows "Artifacts payload = map (ToBuildArtifacts c) (collected (res_trace (Upload c s conf)))"
proof (cases "Upload_init c conf")
  case (Inl e)
  then show ?thesis using assms by (simp add: Upload_init_failed)
next
  case (Inr m)
  show ?thesis
  proof (cases "Upload_preflight c s conf")
    case (Inl et)
    obtain e tr where et: "et = (e, tr)" by (cases et)
    have "tr = [E_SaveBuildGeneralDetails (BuildName conf) (BuildNumber conf)]"
      using Inl et by (auto simp: Upload_preflight_def Let_def split: if_splits option.splits prod.splits)
    then show ?thesis
      using assms Inl et \<open>Upload_init c conf = Inr m\<close> by (simp add: Upload_preflight_failed)
  next
    case (Inr st)
    obtain s1 tr where st: "st = (s1, tr)" by (cases st)
    have pre: "Upload_preflight c s conf = Inr (s1, tr)" using Inr st by simp
    let ?st = "loopEnd m conf s1 tr"
    have acc: "accounted ?st" using loop_final(1) [OF pre] .
    have u: "Upload c s conf = Upload_finish c s1 conf ?st"
      using Upload_reached [OF \<open>Upload_init c conf = Inr m\<close> pre] .
    have nocommit: "E_SavePartialBuildInfo n b payload \<notin> set (trace ?st)"
      using acc by (auto simp: accounted_def list_ex_iff)
    have fi: "filesInfo ?st = collected (trace ?st)"
      using acc by (simp add: accounted_def)
    show ?thesis
      using assms nocommit fi
      by (auto simp: u Upload_finish_trace trace_append split: if_splits) (simp add: trace_single)
  qed
qed

lemma commit_made:
  assumes init: "Upload_init c conf = Inr m"
    and pre: "Upload_preflight c s conf = Inr (s1, tr)"
    and on: "BuildName conf \<noteq> []" "BuildNumber conf \<noteq> []" "\<not> DryRun conf"
    and ok: "entryErrors m conf (Files s1) (loopStart tr) = []"
      "\<not> 0 < sint (failCount (loopEnd m conf s1 tr))"
  shows "filesInfo (loopEnd m conf s1 tr) = collected (trace (loopEnd m conf s1 tr))"
    and "Upload c s conf =
      \<lparr>res_successCount = successCount (loopEnd m conf s1 tr),
       res_failCount = failCount (loopEnd m conf s1 tr),
       res_err = SavePartialBuildInfo c (trace (loopEnd m conf s1 tr)) (BuildName conf)
                   (BuildNumber conf)
                   (\<lambda>partial. partial\<lparr>Artifacts :=
                      map (ToBuildArtifacts c) (filesInfo (loopEnd m conf s1 tr))\<rparr>),
       res_trace = trace (loopEnd m conf s1 tr) @
         [E_SavePartialBuildInfo (BuildName conf) (BuildNumber conf)
            \<lparr>Artifacts = map (ToBuildArtifacts c) (filesInfo (loopEnd m conf s1 tr))\<rparr>],
       res_uploadSpec = s1\<rparr>"
proof -
  let ?st = "loopEnd m conf s1 tr"
  show "filesInfo ?st = collected (trace ?st)"
    using loop_final(1) [OF pre, of m] by (simp add: accounted_def)
  have "\<not> errorOccurred ?st"
    using loop_final(2) [OF pre, of m] ok(1) by simp
  then show "Upload c s conf =
      \<lparr>res_successCount = successCount ?st, res_failCount = failCount ?st,
       res_err = SavePartialBuildInfo c (trace ?st) (BuildName conf) (BuildNumber conf)
                   (\<lambda>partial. partial\<lparr>Artifacts := map (ToBuildArtifacts c) (filesInfo ?st)\<rparr>),
       res_trace = trace ?st @
         [E_SavePartialBuildInfo (BuildName conf) (BuildNumber conf)
            \<lparr>Artifacts = map (ToBuildArtifacts c) (filesInfo ?st)\<rparr>],
       res_uploadSpec = s1\<rparr>"
    using ok(2) on
    by (simp add: Upload_reached [OF init pre] Upload_finish_commit isCollectBuildInfo_iff)
qed

text \<open>
  Claim C9: for every list of descriptors, \<open>convertFileInfoToBuildArtifacts\<close> returns
  a list of the same length whose \<open>i\<close>-th element is the projection of the \<open>i\<close>-th
  descriptor. A run of \<open>Upload\<close> that reaches the loop with build name and build
  number set and dry-run off, in which no entry produced an error and the count of
  failed files is not positive, calls \<open>SavePartialBuildInfo\<close> last, with a populate
  function that sets the artifact list to the conversion of the descriptors the loop
  collected, which are the descriptors the client handed back, in the order of the
  calls. And in every run, the artifact list of a committed partial build-info is the
  conversion of the descriptors in the run's trace.
\<close>

theorem convertFileInfoToBuildArtifacts_one_to_one:
  "(\<exists>buildArtifacts. convertFileInfoToBuildArtifacts g infos = Some buildArtifacts \<and>
      length buildArtifacts = length infos \<and>
      (\<forall>i < length infos. buildArtifacts ! i = g (infos ! i))) \<and>
   (Upload_init c conf = Inr m \<and> Upload_preflight c s conf = Inr (s1, tr) \<and>
    BuildName conf \<noteq> [] \<and> BuildNumber conf \<noteq> [] \<and> \<not> DryRun conf \<and>
    entryErrors m conf (Files s1) (loopStart tr) = [] \<and>
    \<not> 0 < sint (failCount (loopEnd m conf s1 tr)) \<longrightarrow>
      (\<exists>buildArtifacts.
         convertFileInfoToBuildArtifacts (ToBuildArtifacts c)
           (collected (trace (loopEnd m conf s1 tr))) = Some buildArtifacts \<and>
         filesInfo (loopEnd m conf s1 tr) = collected (trace (loopEnd m conf s1 tr)) \<and>
         res_trace (Upload c s conf) =
           trace (loopEnd m conf s1 tr) @
             [E_SavePartialBuildInfo (BuildName conf) (BuildNumber conf)
                \<lparr>Artifacts = buildArtifacts\<rparr>] \<and>
         res_err (Upload c s conf) =
           SavePartialBuildInfo c (trace (loopEnd m conf s1 tr)) (BuildName conf)
             (BuildNumber conf) (\<lambda>partial. partial\<lparr>Artifacts := buildArtifacts\<rparr>))) \<and>
   (E_SavePartialBuildInfo n b payload \<in> set (res_trace (Upload c s conf)) \<longrightarrow>
      convertFileInfoToBuildArtifacts (ToBuildArtifacts c)
        (collected (res_trace (Upload c s conf))) = Some (Artifacts payload))"
proof -
  have made: "Upload_init c conf = Inr m \<and> Upload_preflight c s conf = Inr (s1, tr) \<and>
    BuildName conf \<noteq> [] \<and> BuildNumber conf \<noteq> [] \<and> \<not> DryRun conf \<and>
    entryErrors m conf (Files s1) (loopStart tr) = [] \<and>
    \<not> 0 < sint (failCount (loopEnd m conf s1 tr)) \<Longrightarrow>
      filesInfo (loopEnd m conf s1 tr) = collected (trace (loopEnd m conf s1 tr)) \<and>
      res_trace (Upload c s conf) =
           trace (loopEnd m conf s1 tr) @
             [E_SavePartialBuildInfo (BuildName conf) (BuildNumber conf)
                \<lparr>Artifacts = map (ToBuildArtifacts c)
                    (collected (trace (loopEnd m conf s1 tr)))\<rparr>] \<and>
      res_err (Upload c s conf) =
           SavePartialBuildInfo c (trace (loopEnd m conf s1 tr)) (BuildName conf)
             (BuildNumber conf)
             (\<lambda>partial. partial\<lparr>Artifacts := map (ToBuildArtifacts c)
                    (collected (trace (loopEnd m conf s1 tr)))\<rparr>)"
  proof -
    assume h: "Upload_init c conf = Inr m \<and> Upload_preflight c s conf = Inr (s1, tr) \<and>
      BuildName conf \<noteq> [] \<and> BuildNumber conf \<noteq> [] \<and> \<not> DryRun conf \<and>
      entryErrors m conf (Files s1) (loopStart tr) = [] \<and>
      \<not> 0 < sint (failCount (loopEnd m conf s1 tr))"
    then have fi: "filesInfo (loopEnd m conf s1 tr) = collected (trace (loopEnd m conf s1 tr))"
      using commit_made(1) [of c conf m s s1 tr] by blast
    from h have "Upload c s conf =
      \<lparr>res_successCount = successCount (loopEnd m conf s1 tr),
       res_failCount = failCount (loopEnd m conf s1 tr),
       res_err = SavePartialBuildInfo c (trace (loopEnd m conf s1 tr)) (BuildName conf)
                   (BuildNumber conf)
                   (\<lambda>partial. partial\<lparr>Artifacts :=
                      map (ToBuildArtifacts c) (filesInfo (loopEnd m conf s1 tr))\<rparr>),
       res_trace = trace (loopEnd m conf s1 tr) @
         [E_SavePartialBuildInfo (BuildName conf) (BuildNumber conf)
            \<lparr>Artifacts = map (ToBuildArtifacts c) (filesInfo (loopEnd m conf s1 tr))\<rparr>],
       res_uploadSpec = s1\<rparr>"
      using commit_made(2) [of c conf m s s1 tr] by blast
    then show ?thesis using fi by simp
  qed
  show ?thesis
    using commit_payload [of n b payload c s conf] made
    by (simp add: convert_eq)
qed

theorem convertFileInfoToBuildArtifacts_one_to_one_witness:
  "convertFileInfoToBuildArtifacts sampleProjection [sampleInfo ''a'', sampleInfo ''b''] =
     Some [sampleProjection (sampleInfo ''a''), sampleProjection (sampleInfo ''b'')] \<and>
   collected (res_trace (Upload sampleCollaborators
     \<lparr>Files = [sampleFile ''x'', sampleFile ''y'']\<rparr> (sampleConfiguration ''b'' ''1'' False))) =
     [sampleInfo ''a'', sampleInfo ''b'', sampleInfo ''c'',
      sampleInfo ''a'', sampleInfo ''b'', sampleInfo ''c''] \<and>
   last (res_trace (Upload sampleCollaborators
     \<lparr>Files = [sampleFile ''x'', sampleFile ''y'']\<rparr> (sampleConfiguration ''b'' ''1'' False))) =
     E_SavePartialBuildInfo ''b'' ''1''
       \<lparr>Artifacts =
          [sampleProjection (sampleInfo ''a''), sampleProjection (sampleInfo ''b''),
           sampleProjection (sampleInfo ''c''), sampleProjection (sampleInfo ''a''),
           sampleProjection (sampleInfo ''b''), sampleProjection (sampleInfo ''c'')]\<rparr>"
proof -
  let ?conf = "sampleConfiguration ''b'' ''1'' False"
  let ?s = "\<lparr>Files = [sampleFile ''x'', sampleFile ''y'']\<rparr>"
  let ?x = "(sampleFile ''x'')\<lparr>Props := ''a=1;build.name=b;build.number=1''\<rparr>"
  let ?y = "(sampleFile ''y'')\<lparr>Props := ''a=1;build.name=b;build.number=1''\<rparr>"
  let ?tr = "[E_SaveBuildGeneralDetails ''b'' ''1'', E_CreateBuildProperties ''b'' ''1'',
              E_CreateBuildProperties ''b'' ''1'']"
  have pre: "Upload_preflight sampleCollaborators ?s ?conf = Inr (\<lparr>Files = [?x, ?y]\<rparr>, ?tr)"
    by (simp add: sample_eval)
  have on: "BuildName ?conf \<noteq> [] \<and> BuildNumber ?conf \<noteq> [] \<and> \<not> DryRun ?conf"
    by (simp add: sampleConfiguration_def)
  have e: "entryErrors sampleManager ?conf (Files \<lparr>Files = [?x, ?y]\<rparr>) (loopStart ?tr) = []"
    by (simp add: entry_eval)
  have f: "\<not> 0 < sint (failCount (loopEnd sampleManager ?conf \<lparr>Files = [?x, ?y]\<rparr> ?tr))"
    by (simp add: sample_eval)
  have col: "collected (trace (loopEnd sampleManager ?conf \<lparr>Files = [?x, ?y]\<rparr> ?tr)) =
      [sampleInfo ''a'', sampleInfo ''b'', sampleInfo ''c'',
       sampleInfo ''a'', sampleInfo ''b'', sampleInfo ''c'']"
    by (simp add: sample_eval collected_def)
  have tb: "ToBuildArtifacts sampleCollaborators = sampleProjection"
    by (simp add: sampleCollaborators_def)
  have names: "BuildName ?conf = ''b''" "BuildNumber ?conf = ''1''"
    by (simp_all add: sampleConfiguration_def)
  note inst = convertFileInfoToBuildArtifacts_one_to_one
        [of sampleProjection "[sampleInfo ''a'', sampleInfo ''b'']" sampleCollaborators ?conf
            sampleManager ?s "\<lparr>Files = [?x, ?y]\<rparr>" ?tr "''b''" "''1''" "\<lparr>Artifacts = []\<rparr>"]
  have first: "convertFileInfoToBuildArtifacts sampleProjection [sampleInfo ''a'', sampleInfo ''b''] =
     Some [sampleProjection (sampleInfo ''a''), sampleProjection (sampleInfo ''b'')]"
    using inst by (simp add: convert_eq)
  from inst sample_init pre on e f
  obtain buildArtifacts where
    conv: "convertFileInfoToBuildArtifacts (ToBuildArtifacts sampleCollaborators)
        (collected (trace (loopEnd sampleManager ?conf \<lparr>Files = [?x, ?y]\<rparr> ?tr))) =
        Some buildArtifacts"
    and rt: "res_trace (Upload sampleCollaborators ?s ?conf) =
        trace (loopEnd sampleManager ?conf \<lparr>Files = [?x, ?y]\<rparr> ?tr) @
          [E_SavePartialBuildInfo (BuildName ?conf) (BuildNumber ?conf)
             \<lparr>Artifacts = buildArtifacts\<rparr>]"
    by blast
  have ba: "buildArtifacts =
      [sampleProjection (sampleInfo ''a''), sampleProjection (sampleInfo ''b''),
       sampleProjection (sampleInfo ''c''), sampleProjection (sampleInfo ''a''),
       sampleProjection (sampleInfo ''b''), sampleProjection (sampleInfo ''c'')]"
    using conv by (simp add: col tb convert_eq)
  have "collected (res_trace (Upload sampleCollaborators ?s ?conf)) =
      [sampleInfo ''a'', sampleInfo ''b'', sampleInfo ''c'',
       sampleInfo ''a'', sampleInfo ''b'', sampleInfo ''c'']"
    by (simp add: rt collected_append col) (simp add: collected_def)
  moreover have "last (res_trace (Upload sampleCollaborators ?s ?conf)) =
      E_SavePartialBuildInfo ''b'' ''1'' \<lparr>Artifacts = buildArtifacts\<rparr>"
    by (simp add: rt names)
  ultimately show ?thesis
    using first ba by simp
qed

text \<open>
  Claim C10, as stated, fails: with zero entries, build name and build number set and
  dry-run off, the service manager is created, the general-details save fails, and
  \<open>Upload\<close> returns that error without calling \<open>SavePartialBuildInfo\<close>.
\<close>

theorem Upload_zero_entries_claim_counterexample:
  "\<not> isl (Upload_init failingGeneralSave (sampleConfiguration ''b'' ''1'' False)) \<and>
   BuildName (sampleConfiguration ''b'' ''1'' False) \<noteq> [] \<and>
   BuildNumber (sampleConfiguration ''b'' ''1'' False) \<noteq> [] \<and>
   \<not> DryRun (sampleConfiguration ''b'' ''1'' False) \<and>
   \<not> list_ex isCommit
       (res_trace (Upload failingGeneralSave \<lparr>Files = []\<rparr> (sampleConfiguration ''b'' ''1'' False))) \<and>
   res_err (Upload failingGeneralSave \<lparr>Files = []\<rparr> (sampleConfiguration ''b'' ''1'' False)) =
     Some (ErrorString ''cannot write build details'')"
  by (simp add: failingGeneralSave_def sample_eval)

text \<open>
  Claim C10, amended: for a specification with zero entries, once the service manager
  is created, \<open>Upload\<close> returns both counts 0. When build name and build number are
  both non-empty and dry-run is false it calls \<open>SaveBuildGeneralDetails\<close>; if that
  fails it returns its error and makes no other call; if it succeeds it calls
  \<open>SavePartialBuildInfo\<close> with an empty artifact list and returns the error of that
  call. Otherwise it makes no call and returns no error.
\<close>

theorem Upload_zero_entries:
  assumes "Upload_init c conf = Inr m" and "Files s = []"
  shows "res_successCount (Upload c s conf) = 0 \<and> res_failCount (Upload c s conf) = 0 \<and>
    (BuildName conf \<noteq> [] \<and> BuildNumber conf \<noteq> [] \<and> \<not> DryRun conf \<longrightarrow>
       (\<forall>e. SaveBuildGeneralDetails c [] (BuildName conf) (BuildNumber conf) = Some e \<longrightarrow>
          res_err (Upload c s conf) = Some e \<and>
          res_trace (Upload c s conf) =
            [E_SaveBuildGeneralDetails (BuildName conf) (BuildNumber conf)]) \<and>
       (SaveBuildGeneralDetails c [] (BuildName conf) (BuildNumber conf) = None \<longrightarrow>
          res_err (Upload c s conf) =
            SavePartialBuildInfo c [E_SaveBuildGeneralDetails (BuildName conf) (BuildNumber conf)]
              (BuildName conf) (BuildNumber conf) (\<lambda>partial. partial\<lparr>Artifacts := []\<rparr>) \<and>
          res_trace (Upload c s conf) =
            [E_SaveBuildGeneralDetails (BuildName conf) (BuildNumber conf),
             E_SavePartialBuildInfo (BuildName conf) (BuildNumber conf) \<lparr>Artifacts = []\<rparr>])) \<and>
    (\<not> (BuildName conf \<noteq> [] \<and> BuildNumber conf \<noteq> [] \<and> \<not> DryRun conf) \<longrightarrow>
       res_err (Upload c s conf) = None \<and> res_trace (Upload c s conf) = [])"
proof (cases "BuildName conf \<noteq> [] \<and> BuildNumber conf \<noteq> [] \<and> \<not> DryRun conf")
  case False
  then have "Upload_preflight c s conf = Inr (s, [])"
    by (auto simp: Upload_preflight_def isCollectBuildInfo_def)
  then have "Upload c s conf = Upload_finish c s conf (loopStart [])"
    using Upload_reached [OF assms(1)] assms(2) by (simp add: loopEnd_def)
  then show ?thesis
    using False by (auto simp: Upload_finish_def loopStart_def isCollectBuildInfo_def)
next
  case True
  let ?g = "E_SaveBuildGeneralDetails (BuildName conf) (BuildNumber conf)"
  show ?thesis
  proof (cases "SaveBuildGeneralDetails c [] (BuildName conf) (BuildNumber conf)")
    case (Some e)
    then have "Upload_preflight c s conf = Inl (e, [?g])"
      using True by (simp add: Upload_preflight_def isCollectBuildInfo_def)
    then show ?thesis
      using True Some by (simp add: Upload_preflight_failed [OF assms(1)])
  next
    case None
    then have "Upload_preflight c s conf = Inr (s\<lparr>Files := []\<rparr>, [?g])"
      using True assms(2) by (simp add: Upload_preflight_def isCollectBuildInfo_def)
    then have "Upload c s conf = Upload_finish c (s\<lparr>Files := []\<rparr>) conf (loopStart [?g])"
      using Upload_reached [OF assms(1)] by (simp add: loopEnd_def)
    then show ?thesis
      using True None
      by (simp add: Upload_finish_def loopStart_def isCollectBuildInfo_def convert_eq)
  qed
qed

theorem Upload_zero_entries_witness:
  "res_successCount (Upload sampleCollaborators \<lparr>Files = []\<rparr>
      (sampleConfiguration ''b'' ''1'' False)) = 0 \<and>
   res_err (Upload sampleCollaborators \<lparr>Files = []\<rparr>
      (sampleConfiguration ''b'' ''1'' False)) = None \<and>
   res_trace (Upload sampleCollaborators \<lparr>Files = []\<rparr>
      (sampleConfiguration ''b'' ''1'' False)) =
     [E_SaveBuildGeneralDetails ''b'' ''1'',
      E_SavePartialBuildInfo ''b'' ''1'' \<lparr>Artifacts = []\<rparr>] \<and>
   res_err (Upload failingGeneralSave \<lparr>Files = []\<rparr>
      (sampleConfiguration ''b'' ''1'' False)) = Some (ErrorString ''cannot write build details'')"
proof -
  have i: "Upload_init failingGeneralSave (sampleConfiguration ''b'' ''1'' False) = Inr sampleManager"
    by (simp add: failingGeneralSave_def sampleCollaborators_def sampleConfiguration_def
        Upload_init_def createUploadServiceConfig_def getMinChecksumDeploySize_def Getenv_def)
  have f: "Files \<lparr>Files = []\<rparr> = []"
    by simp
  show ?thesis
    using Upload_zero_entries [OF sample_init f, of "''b''" "''1''" False]
      Upload_zero_entries [OF i f]
    by (simp add: sampleCollaborators_def sampleConfiguration_def failingGeneralSave_def)
qed

end
